theory Spec2Isabelle
  imports Main
begin

section \<open>Resources and instance types\<close>

text \<open>
  A \<open>v1.ResourceList\<close> is a Go map from resource names to quantities. Reading a key
  that is absent from a Go map gives the zero value of the element type, here the
  zero \<open>resource.Quantity\<close>. Quantities are modelled as integers (their value in
  the smallest unit).
\<close>

type_synonym Quantity = int
type_synonym ResourceList = "string \<rightharpoonup> Quantity"

definition index_ResourceList :: "ResourceList \<Rightarrow> string \<Rightarrow> Quantity" where
  "index_ResourceList rl k = (case rl k of None \<Rightarrow> 0 | Some q \<Rightarrow> q)"

text \<open>
  Modelled from the spec: \<open>resources.IsZero\<close> (package \<open>pkg/utils/resources\<close>) is
  not part of the sources at hand; it is the test that a quantity is zero.
\<close>

definition resources_IsZero :: "Quantity \<Rightarrow> bool" where
  "resources_IsZero q \<longleftrightarrow> q = 0"

text \<open>
  Modelled from the spec: the resource-name constants of
  \<open>pkg/cloudprovider/aws/apis/v1alpha1\<close> are not part of the sources at hand.
\<close>

definition ResourceNVIDIAGPU :: string where
  "ResourceNVIDIAGPU = ''nvidia.com/gpu''"

definition ResourceAMDGPU :: string where
  "ResourceAMDGPU = ''amd.com/gpu''"

definition ResourceAWSNeuron :: string where
  "ResourceAWSNeuron = ''aws.amazon.com/neuron''"

text \<open>The \<open>cloudprovider.InstanceType\<close> interface, as far as the code reads it.\<close>

record InstanceType =
  it_Name :: string
  it_Architecture :: string
  it_Resources :: ResourceList

record Taint =
  taint_Key :: string
  taint_Value :: string
  taint_Effect :: string

record Toleration =
  tol_Key :: string
  tol_Operator :: string
  tol_Value :: string
  tol_Effect :: string

section \<open>The AL2 AMI family (package amifamily)\<close>

record Options =
  opt_ClusterName :: string
  opt_ClusterEndpoint :: string
  opt_AWSENILimitedPodDensity :: bool

record bootstrap_Options =
  bo_ClusterName :: string
  bo_ClusterEndpoint :: string
  bo_AWSENILimitedPodDensity :: bool
  bo_KubeletConfig :: "string option"
  bo_Taints :: "Taint list"
  bo_Labels :: "string \<rightharpoonup> string"
  bo_CABundle :: "string option"

record bootstrap_EKS =
  eks_ContainerRuntime :: string
  eks_Options :: bootstrap_Options

text \<open>A Go run-time panic; \<open>instanceTypes[0]\<close> on an empty slice is one.\<close>

datatype panic = IndexOutOfRange

text \<open>\<open>AL2.containerRuntime\<close>.\<close>

definition containerRuntime :: "Options \<Rightarrow> InstanceType list \<Rightarrow> panic + string" where
  "containerRuntime a instanceTypes =
     (case instanceTypes of
        [] \<Rightarrow> Inl IndexOutOfRange
      | it0 # _ \<Rightarrow>
          (let instanceResources = it_Resources it0 in
           if resources_IsZero (index_ResourceList instanceResources ResourceNVIDIAGPU) \<and>
              resources_IsZero (index_ResourceList instanceResources ResourceAMDGPU) \<and>
              resources_IsZero (index_ResourceList instanceResources ResourceAWSNeuron)
           then Inr ''containerd''
           else Inr ''dockerd''))"

text \<open>\<open>AL2.UserData\<close>: the container runtime is computed first, then the struct is built.\<close>

definition UserData ::
  "Options \<Rightarrow> string option \<Rightarrow> Taint list \<Rightarrow> (string \<rightharpoonup> string) \<Rightarrow> string option \<Rightarrow>
   InstanceType list \<Rightarrow> panic + bootstrap_EKS" where
  "UserData a kubeletConfig taints labels caBundle instanceTypes =
     (case containerRuntime a instanceTypes of
        Inl p \<Rightarrow> Inl p
      | Inr runtime \<Rightarrow>
          Inr \<lparr> eks_ContainerRuntime = runtime,
                eks_Options = \<lparr> bo_ClusterName = opt_ClusterName a,
                                bo_ClusterEndpoint = opt_ClusterEndpoint a,
                                bo_AWSENILimitedPodDensity = opt_AWSENILimitedPodDensity a,
                                bo_KubeletConfig = kubeletConfig,
                                bo_Taints = taints,
                                bo_Labels = labels,
                                bo_CABundle = caBundle \<rparr> \<rparr>)"

section \<open>Kubernetes and provisioning objects (package provisioning)\<close>

text \<open>
  The objects the provisioning loop handles, with the fields the code reads. Opaque
  payloads (the provider blob, the kubelet configuration, type metadata) are strings.
  Go maps from strings are partial functions.
\<close>

type_synonym NodeSelectorRequirement = "string \<times> string \<times> string list"

record Requirements =
  req_Requirements :: "NodeSelectorRequirement list"

record PodSpec =
  spec_NodeName :: string
  spec_Tolerations :: "Toleration list"
  spec_Requests :: "ResourceList list"

record Pod =
  pod_TypeMeta :: string
  pod_Namespace :: string
  pod_Name :: string
  pod_Spec :: PodSpec

record DaemonSet =
  ds_Name :: string
  ds_Template_Spec :: PodSpec

record Provisioner =
  prov_Name :: string
  prov_Labels :: "string \<rightharpoonup> string"
  prov_Taints :: "Taint list"
  prov_StartupTaints :: "Taint list"
  prov_Requirements :: Requirements
  prov_KubeletConfiguration :: "string option"
  prov_Provider :: string
  prov_Limits :: "ResourceList option"
  prov_Status_Resources :: ResourceList

text \<open>\<open>scheduling.Node\<close>, the synthetic node that \<open>Solve\<close> returns.\<close>

record Node =
  node_Provisioner :: Provisioner
  node_InstanceTypeOptions :: "InstanceType list"
  node_Pods :: "Pod list"

text \<open>\<open>v1.Node\<close>, the node object of the cluster store.\<close>

record K8sNode =
  k8s_Name :: string
  k8s_Labels :: "string \<rightharpoonup> string"
  k8s_Taints :: "Taint list"

record NodeTemplate =
  tmpl_Provider :: string
  tmpl_Labels :: "string \<rightharpoonup> string"
  tmpl_Taints :: "Taint list"
  tmpl_Requirements :: Requirements
  tmpl_KubeletConfiguration :: "string option"

record NodeRequest =
  nr_InstanceTypeOptions :: "InstanceType list"
  nr_Template :: NodeTemplate

record Binding =
  bind_TypeMeta :: string
  bind_Namespace :: string
  bind_Name :: string
  bind_Target :: string

type_synonym NamespacedName = "string \<times> string"

text \<open>\<open>client.ObjectKeyFromObject\<close> of a Provisioner, which is cluster-scoped.\<close>

definition ObjectKeyFromObject :: "Provisioner \<Rightarrow> NamespacedName" where
  "ObjectKeyFromObject p = ([], prov_Name p)"

subsection \<open>Errors\<close>

text \<open>
  Go errors as values. \<open>StatusError\<close> is the API server's error with its reason,
  \<open>Errorf\<close> is \<open>fmt.Errorf\<close> with its format string, its string arguments and the
  error wrapped by \<open>%w\<close>, \<open>Multierr\<close> is the combination made by \<open>multierr\<close>.
\<close>

datatype StatusReason = StatusReasonAlreadyExists | StatusReasonNotFound | StatusReasonOther string

datatype err =
    StatusError StatusReason string
  | ErrorNew string
  | Errorf string "string list" "err option"
  | Multierr "err list"

text \<open>
  \<open>errors.ReasonForError\<close> of apimachinery: \<open>errors.As\<close> looks for the first error of
  the tree that is a status error, through the errors wrapped by \<open>%w\<close> and, by the \<open>As\<close>
  method of \<open>multierr\<close>, through the errors of a combination in their order; the reason is
  the reason of that status error.
\<close>

fun ReasonForError :: "err \<Rightarrow> StatusReason option"
  and ReasonForErrors :: "err list \<Rightarrow> StatusReason option" where
  "ReasonForError (StatusError r _) = Some r"
| "ReasonForError (ErrorNew _) = None"
| "ReasonForError (Errorf _ _ None) = None"
| "ReasonForError (Errorf _ _ (Some e)) = ReasonForError e"
| "ReasonForError (Multierr es) = ReasonForErrors es"
| "ReasonForErrors [] = None"
| "ReasonForErrors (e # es) =
     (case ReasonForError e of Some r \<Rightarrow> Some r | None \<Rightarrow> ReasonForErrors es)"

text \<open>\<open>errors.IsAlreadyExists\<close> of apimachinery.\<close>

definition IsAlreadyExists :: "err \<Rightarrow> bool" where
  "IsAlreadyExists e \<longleftrightarrow> ReasonForError e = Some StatusReasonAlreadyExists"

text \<open>
  \<open>multierr.Combine\<close>: nil when every argument is nil, the error itself when only one is
  not nil; otherwise the combination of the errors that are not nil, in which the errors
  of an argument that is a combination itself take the place of that argument.
\<close>

fun multierr_Errors :: "err \<Rightarrow> err list" where
  "multierr_Errors (Multierr es) = es"
| "multierr_Errors e = [e]"

definition multierr_Combine :: "err option list \<Rightarrow> err option" where
  "multierr_Combine es =
     (case List.map_filter id es of
        [] \<Rightarrow> None
      | [e] \<Rightarrow> Some e
      | e # e' # rest \<Rightarrow> Some (Multierr (concat (map multierr_Errors (e # e' # rest)))))"

subsection \<open>Observable effects\<close>

text \<open>
  The context carries the logger's fields and the provisioner name registered by
  \<open>injection.WithNamespacedName\<close>; its cancellation is part of the world.
\<close>

record ctx =
  ctx_logger :: "(string \<times> string) list"
  ctx_NamespacedName :: NamespacedName

datatype level = Debug | Info | Error

datatype logarg = AStr string | ANat nat | AErr err | ANode Node

text \<open>
  Every call to a collaborator and every log line is appended to a trace, in the order
  the code makes them.
\<close>

datatype event =
    Logf level "(string \<times> string) list" string "logarg list"
  | BatcherWait
  | KubeListPods "(string \<times> string) list"
  | ValidatePersistentVolumeClaims Pod
  | KubeListProvisioners
  | GetRequirements string
  | GetInstanceTypes string
  | VolumeInject Pod
  | NewTopology "Provisioner list" "Pod list"
  | KubeListDaemonSets
  | Solve "Pod list"
  | KubeGetProvisioner NamespacedName
  | CloudCreate NodeRequest
  | NodesCreate K8sNode
  | PodsBind string Binding
  | PodShouldSchedule Pod K8sNode
  | Observe string string
  | CondBroadcast

record 'w state =
  world :: 'w
  trace :: "event list"

definition emit :: "event \<Rightarrow> 'w state \<Rightarrow> 'w state" where
  "emit e s = s\<lparr>trace := trace s @ [e]\<rparr>"

text \<open>A call to a collaborator: it is recorded, it answers, and it may change the world.\<close>

definition call :: "event \<Rightarrow> ('w \<Rightarrow> 'a \<times> 'w) \<Rightarrow> 'w state \<Rightarrow> 'a \<times> 'w state" where
  "call e f s = (case f (world s) of (r, w') \<Rightarrow> (r, \<lparr>world = w', trace = trace s @ [e]\<rparr>))"

subsection \<open>The worker pool of ParallelizeUntil\<close>

text \<open>
  \<open>workqueue.ParallelizeUntil(ctx, workers, pieces, doWorkPiece)\<close> of client-go puts the
  pieces \<open>0 .. pieces - 1\<close> on a channel and starts the workers, here as many as there are
  pieces. A worker takes a piece from the channel, looks at \<open>ctx.Done()\<close> and returns if
  the context is cancelled; otherwise it calls \<open>doWorkPiece\<close> on the piece.
  \<open>ParallelizeUntil\<close> returns when every worker has returned. The workers run side by
  side: between the look of a worker at the context and its call of \<open>doWorkPiece\<close>, and
  between two pieces, the other workers make steps of their own.

  The model runs an interleaving of two kinds of steps. \<open>Select i\<close>: the worker that has
  taken piece \<open>i\<close> from the channel looks at the context; the piece is admitted when the
  context is not cancelled. \<open>Work i\<close>: the worker calls \<open>doWorkPiece\<close> on the admitted
  piece \<open>i\<close>. A step that cannot happen does nothing (a piece is taken once, and only an
  admitted piece is worked, once). Whatever the interleaving leaves undone is done at the
  end in the order of the indices, so that every piece is taken: with as many workers as
  pieces none is left on the channel, since a worker returns only when the channel is empty
  or after it has taken a piece and found the context cancelled. One call of
  \<open>doWorkPiece\<close> is one step: the calls that the pieces make to the collaborators are
  not interleaved with one another.
\<close>

datatype step = Select nat | Work nat

record 'w pool =
  pool_taken :: "nat list"
  pool_admitted :: "nat list"
  pool_worked :: "nat list"
  pool_state :: "'w state"

definition pool_step ::
  "('w state \<Rightarrow> bool) \<Rightarrow> nat \<Rightarrow> (nat \<Rightarrow> 'w state \<Rightarrow> 'w state) \<Rightarrow> step \<Rightarrow> 'w pool \<Rightarrow> 'w pool" where
  "pool_step stop pieces doWorkPiece st p =
     (case st of
        Select i \<Rightarrow>
          if i < pieces \<and> i \<notin> set (pool_taken p)
          then p\<lparr>pool_taken := i # pool_taken p,
                 pool_admitted := (if stop (pool_state p) then pool_admitted p
                                   else i # pool_admitted p)\<rparr>
          else p
      | Work i \<Rightarrow>
          if i \<in> set (pool_admitted p) \<and> i \<notin> set (pool_worked p)
          then p\<lparr>pool_worked := pool_worked p @ [i],
                 pool_state := doWorkPiece i (pool_state p)\<rparr>
          else p)"

fun pool_run ::
  "('w state \<Rightarrow> bool) \<Rightarrow> nat \<Rightarrow> (nat \<Rightarrow> 'w state \<Rightarrow> 'w state) \<Rightarrow> step list \<Rightarrow> 'w pool \<Rightarrow> 'w pool" where
  "pool_run stop pieces doWorkPiece [] p = p"
| "pool_run stop pieces doWorkPiece (st # steps) p =
     pool_run stop pieces doWorkPiece steps (pool_step stop pieces doWorkPiece st p)"

definition pool_steps :: "step list \<Rightarrow> nat \<Rightarrow> step list" where
  "pool_steps interleaving pieces =
     interleaving @ concat (map (\<lambda>i. [Select i, Work i]) [0..<pieces])"

definition pool_start :: "'w state \<Rightarrow> 'w pool" where
  "pool_start s = \<lparr>pool_taken = [], pool_admitted = [], pool_worked = [], pool_state = s\<rparr>"

definition ParallelizeUntil ::
  "('w state \<Rightarrow> bool) \<Rightarrow> step list \<Rightarrow> nat \<Rightarrow> (nat \<Rightarrow> 'w state \<Rightarrow> 'w state) \<Rightarrow> 'w state \<Rightarrow> 'w state" where
  "ParallelizeUntil stop interleaving pieces doWorkPiece s =
     pool_state (pool_run stop pieces doWorkPiece (pool_steps interleaving pieces) (pool_start s))"

subsection \<open>Collaborators\<close>

text \<open>
  Everything the provisioning loop calls and that is not in the sources at hand is a
  parameter: the cluster store client, the cloud provider, the batcher, the scheduler,
  the volume topology, and the helper functions of the packages \<open>v1alpha5\<close>,
  \<open>resources\<close>, \<open>functional\<close> and \<open>cloudprovider\<close>. A collaborator that can block, fail
  or change something takes the world \<open>'w\<close> and returns the new one. A topology is
  a handle. The interleaving that the workers of a pool follow is chosen by the Go
  scheduler; it is read from the world in which the pool is started.
\<close>

type_synonym Topology = nat

record 'w ext =
  ctx_Err :: "'w \<Rightarrow> bool"
  batcher_Wait :: "'w \<Rightarrow> nat \<times> 'w"
  kubeClient_List_Pods :: "(string \<times> string) list \<Rightarrow> 'w \<Rightarrow> (err + Pod list) \<times> 'w"
  validate :: "Pod \<Rightarrow> err option"
  validatePersistentVolumeClaims :: "Pod \<Rightarrow> 'w \<Rightarrow> err option \<times> 'w"
  isProvisionable :: "Pod \<Rightarrow> bool"
  kubeClient_List_Provisioners :: "'w \<Rightarrow> (err + Provisioner list) \<times> 'w"
  cloudProvider_GetRequirements :: "string \<Rightarrow> 'w \<Rightarrow> (err + Requirements) \<times> 'w"
  cloudProvider_GetInstanceTypes :: "string \<Rightarrow> 'w \<Rightarrow> (err + InstanceType list) \<times> 'w"
  cloudprovider_Requirements :: "InstanceType list \<Rightarrow> Requirements"
  functional_UnionStringMaps :: "(string \<rightharpoonup> string) \<Rightarrow> (string \<rightharpoonup> string) \<Rightarrow> (string \<rightharpoonup> string)"
  NewRequirements :: "NodeSelectorRequirement list \<Rightarrow> Requirements"
  NewLabelRequirements :: "(string \<rightharpoonup> string) \<Rightarrow> Requirements"
  NewPodRequirements :: "Pod \<Rightarrow> Requirements"
  Requirements_Add :: "Requirements \<Rightarrow> NodeSelectorRequirement list \<Rightarrow> Requirements"
  Requirements_Compatible :: "Requirements \<Rightarrow> Requirements \<Rightarrow> err option"
  Taints_Tolerates :: "Taint list \<Rightarrow> Pod \<Rightarrow> Toleration list \<Rightarrow> err option"
  Limits_ExceededBy :: "ResourceList option \<Rightarrow> ResourceList \<Rightarrow> err option"
  resources_RequestsForPods :: "Pod list \<Rightarrow> ResourceList"
  volumeTopology_Inject :: "Pod \<Rightarrow> 'w \<Rightarrow> (err + Pod) \<times> 'w"
  scheduling_NewTopology :: "Provisioner list \<Rightarrow> Pod list \<Rightarrow> 'w \<Rightarrow> (err + Topology) \<times> 'w"
  kubeClient_List_DaemonSets :: "'w \<Rightarrow> (err + DaemonSet list) \<times> 'w"
  Scheduler_Solve ::
    "Provisioner list \<Rightarrow> Topology \<Rightarrow> (string \<Rightarrow> InstanceType list) \<Rightarrow>
     (Provisioner \<rightharpoonup> ResourceList) \<Rightarrow> Pod list \<Rightarrow> 'w \<Rightarrow> (err + Node list) \<times> 'w"
  kubeClient_Get_Provisioner :: "NamespacedName \<Rightarrow> 'w \<Rightarrow> (err + Provisioner) \<times> 'w"
  cloudProvider_Create :: "NodeRequest \<Rightarrow> 'w \<Rightarrow> (err + K8sNode) \<times> 'w"
  Spec_ToNode :: "Provisioner \<Rightarrow> K8sNode"
  mergo_Merge :: "K8sNode \<Rightarrow> K8sNode \<Rightarrow> err + K8sNode"
  Nodes_Create :: "K8sNode \<Rightarrow> 'w \<Rightarrow> err option \<times> 'w"
  Pods_Bind :: "string \<Rightarrow> Binding \<Rightarrow> 'w \<Rightarrow> err option \<times> 'w"
  workqueue_interleaving :: "'w \<Rightarrow> step list"

definition ctx_Done :: "'w ext \<Rightarrow> 'w state \<Rightarrow> bool" where
  "ctx_Done x s = ctx_Err x (world s)"

text \<open>Modelled from the spec: the taint keys of the two standard not-ready taints
  (\<open>v1alpha5.NotReadyTaintKey\<close> is not part of the sources at hand).\<close>

definition NotReadyTaintKey :: string where
  "NotReadyTaintKey = ''karpenter.sh/not-ready''"

definition TaintNodeNotReady :: string where
  "TaintNodeNotReady = ''node.kubernetes.io/not-ready''"

text \<open>Modelled from the spec: the label key that names the provisioner
  (\<open>v1alpha5.ProvisionerNameLabelKey\<close> is not part of the sources at hand).\<close>

definition ProvisionerNameLabelKey :: string where
  "ProvisionerNameLabelKey = ''karpenter.sh/provisioner-name''"

section \<open>The provisioning loop\<close>

definition logf :: "ctx \<Rightarrow> level \<Rightarrow> string \<Rightarrow> logarg list \<Rightarrow> 'w state \<Rightarrow> 'w state" where
  "logf c l fmt args s = emit (Logf l (ctx_logger c) fmt args) s"

subsection \<open>getPods\<close>

text \<open>
  The loop over \<open>podList.Items\<close>. Both validations are evaluated before
  \<open>multierr.Combine\<close> is called; a pod with an error is logged at debug level and the
  loop goes on with the next one.
\<close>

fun getPods_loop ::
  "'w ext \<Rightarrow> ctx \<Rightarrow> Pod list \<Rightarrow> Pod list \<Rightarrow> 'w state \<Rightarrow> Pod list \<times> 'w state" where
  "getPods_loop x c [] pods s = (pods, s)"
| "getPods_loop x c (pod # items) pods s =
     (case call (ValidatePersistentVolumeClaims pod) (validatePersistentVolumeClaims x pod) s of
        (e2, s1) \<Rightarrow>
          (case multierr_Combine [validate x pod, e2] of
             Some errs \<Rightarrow>
               getPods_loop x c items pods
                 (logf (c\<lparr>ctx_logger := ctx_logger c @ [(''pod'', pod_Namespace pod @ ''/'' @ pod_Name pod)]\<rparr>)
                    Debug ''Unable to batch pod, %s'' [AErr errs] s1)
           | None \<Rightarrow>
               if isProvisionable x pod
               then getPods_loop x c items (pods @ [pod]) s1
               else getPods_loop x c items pods s1))"

definition getPods :: "'w ext \<Rightarrow> ctx \<Rightarrow> 'w state \<Rightarrow> (err + Pod list) \<times> 'w state" where
  "getPods x c s =
     (case call (KubeListPods [(''spec.nodeName'', '''')])
                (kubeClient_List_Pods x [(''spec.nodeName'', '''')]) s of
        (Inl e, s1) \<Rightarrow> (Inl (Errorf ''listing pods, %w'' [] (Some e)), s1)
      | (Inr items, s1) \<Rightarrow>
          (case getPods_loop x c items [] s1 of (pods, s2) \<Rightarrow> (Inr pods, s2)))"

subsection \<open>getDaemonOverhead\<close>

text \<open>The pod built from a daemon set: only its spec is set.\<close>

definition daemonPod :: "DaemonSet \<Rightarrow> Pod" where
  "daemonPod daemonSet =
     \<lparr>pod_TypeMeta = '''', pod_Namespace = '''', pod_Name = '''',
      pod_Spec = ds_Template_Spec daemonSet\<rparr>"

text \<open>The inner loop over \<open>daemonSetList.Items\<close>, for one provisioner.\<close>

fun daemons_loop :: "'w ext \<Rightarrow> Provisioner \<Rightarrow> DaemonSet list \<Rightarrow> Pod list \<Rightarrow> Pod list" where
  "daemons_loop x provisioner [] daemons = daemons"
| "daemons_loop x provisioner (daemonSet # rest) daemons =
     (let p = daemonPod daemonSet in
      if Taints_Tolerates x (prov_Taints provisioner) p [] \<noteq> None
      then daemons_loop x provisioner rest daemons
      else if Requirements_Compatible x (prov_Requirements provisioner) (NewPodRequirements x p) \<noteq> None
      then daemons_loop x provisioner rest daemons
      else daemons_loop x provisioner rest (daemons @ [p]))"

text \<open>
  The outer loop over the provisioners. The Go map is keyed by the pointer to the
  provisioner; the model keys it by the provisioner the pointer leads to.
\<close>

fun overhead_loop ::
  "'w ext \<Rightarrow> DaemonSet list \<Rightarrow> Provisioner list \<Rightarrow> (Provisioner \<rightharpoonup> ResourceList) \<Rightarrow>
   (Provisioner \<rightharpoonup> ResourceList)" where
  "overhead_loop x daemonSets [] overhead = overhead"
| "overhead_loop x daemonSets (provisioner # rest) overhead =
     overhead_loop x daemonSets rest
       (overhead(provisioner \<mapsto>
          resources_RequestsForPods x (daemons_loop x provisioner daemonSets [])))"

definition getDaemonOverhead ::
  "'w ext \<Rightarrow> ctx \<Rightarrow> Provisioner list \<Rightarrow> 'w state \<Rightarrow>
   (err + (Provisioner \<rightharpoonup> ResourceList)) \<times> 'w state" where
  "getDaemonOverhead x c provisioners s =
     (case call KubeListDaemonSets (kubeClient_List_DaemonSets x) s of
        (Inl e, s1) \<Rightarrow> (Inl (Errorf ''listing daemonsets, %w'' [] (Some e)), s1)
      | (Inr daemonSets, s1) \<Rightarrow> (Inr (overhead_loop x daemonSets provisioners Map.empty), s1))"

subsection \<open>schedule\<close>

text \<open>
  The loop over \<open>provisionerList.Items\<close>: it fills \<open>instanceTypes\<close>, rewrites the
  labels and the requirements of each provisioner in place and collects the
  provisioners; an error of the cloud provider ends \<open>schedule\<close>.
\<close>

fun schedule_provisioners ::
  "'w ext \<Rightarrow> Provisioner list \<Rightarrow> (string \<Rightarrow> InstanceType list) \<Rightarrow> Provisioner list \<Rightarrow> 'w state \<Rightarrow>
   (err + (string \<Rightarrow> InstanceType list) \<times> Provisioner list) \<times> 'w state" where
  "schedule_provisioners x [] instanceTypes provisioners s = (Inr (instanceTypes, provisioners), s)"
| "schedule_provisioners x (provisioner # items) instanceTypes provisioners s =
     (case call (GetRequirements (prov_Provider provisioner))
                (cloudProvider_GetRequirements x (prov_Provider provisioner)) s of
        (Inl e, s1) \<Rightarrow> (Inl (Errorf ''getting provider requirements, %w'' [] (Some e)), s1)
      | (Inr cloudproviderRequirements, s1) \<Rightarrow>
          (case call (GetInstanceTypes (prov_Provider provisioner))
                     (cloudProvider_GetInstanceTypes x (prov_Provider provisioner)) s1 of
             (Inl e, s2) \<Rightarrow> (Inl (Errorf ''getting instance types, %w'' [] (Some e)), s2)
           | (Inr instanceType, s2) \<Rightarrow>
               (let instanceTypes' = instanceTypes
                      (prov_Name provisioner := instanceTypes (prov_Name provisioner) @ instanceType);
                    instanceTypeRequirements =
                      cloudprovider_Requirements x (instanceTypes' (prov_Name provisioner));
                    labels = functional_UnionStringMaps x (prov_Labels provisioner)
                               [ProvisionerNameLabelKey \<mapsto> prov_Name provisioner];
                    requirements =
                      Requirements_Add x
                        (Requirements_Add x
                           (Requirements_Add x
                              (NewRequirements x (req_Requirements (prov_Requirements provisioner)))
                              (req_Requirements (NewLabelRequirements x labels)))
                           (req_Requirements cloudproviderRequirements))
                        (req_Requirements instanceTypeRequirements);
                    provisioner' = provisioner\<lparr>prov_Labels := labels, prov_Requirements := requirements\<rparr>
                in schedule_provisioners x items instanceTypes' (provisioners @ [provisioner']) s2)))"

text \<open>\<open>volumeTopology.Inject\<close> changes the pod it is given; an error ends \<open>schedule\<close>.\<close>

fun inject_loop ::
  "'w ext \<Rightarrow> Pod list \<Rightarrow> Pod list \<Rightarrow> 'w state \<Rightarrow> (err + Pod list) \<times> 'w state" where
  "inject_loop x [] injected s = (Inr injected, s)"
| "inject_loop x (pod # pods) injected s =
     (case call (VolumeInject pod) (volumeTopology_Inject x pod) s of
        (Inl e, s1) \<Rightarrow> (Inl (Errorf ''getting volume topology requirements, %w'' [] (Some e)), s1)
      | (Inr pod', s1) \<Rightarrow> inject_loop x pods (injected @ [pod']) s1)"

definition schedule_body ::
  "'w ext \<Rightarrow> ctx \<Rightarrow> Pod list \<Rightarrow> 'w state \<Rightarrow> (err + Node list) \<times> 'w state" where
  "schedule_body x c pods s =
     (case call KubeListProvisioners (kubeClient_List_Provisioners x) s of
        (Inl e, s1) \<Rightarrow> (Inl (Errorf ''listing provisioners, %w'' [] (Some e)), s1)
      | (Inr items, s1) \<Rightarrow>
     (case schedule_provisioners x items (\<lambda>_. []) [] s1 of
        (Inl e, s2) \<Rightarrow> (Inl e, s2)
      | (Inr (instanceTypes, provisioners), s2) \<Rightarrow>
     if length provisioners = 0 then (Inl (Errorf ''no provisioners found'' [] None), s2)
     else
     (case inject_loop x pods [] s2 of
        (Inl e, s3) \<Rightarrow> (Inl e, s3)
      | (Inr pods', s3) \<Rightarrow>
     (case call (NewTopology provisioners pods') (scheduling_NewTopology x provisioners pods') s3 of
        (Inl e, s4) \<Rightarrow> (Inl (Errorf ''tracking topology counts, %w'' [] (Some e)), s4)
      | (Inr topology, s4) \<Rightarrow>
     (case getDaemonOverhead x c provisioners s4 of
        (Inl e, s5) \<Rightarrow> (Inl (Errorf ''getting daemon overhead, %w'' [] (Some e)), s5)
      | (Inr daemonOverhead, s5) \<Rightarrow>
          call (Solve pods')
               (Scheduler_Solve x provisioners topology instanceTypes daemonOverhead pods') s5)))))"

text \<open>The deferred \<open>metrics.Measure\<close> observes the duration on every way out.\<close>

definition schedule ::
  "'w ext \<Rightarrow> ctx \<Rightarrow> Pod list \<Rightarrow> 'w state \<Rightarrow> (err + Node list) \<times> 'w state" where
  "schedule x c pods s =
     (case schedule_body x c pods s of
        (r, s') \<Rightarrow> (r, emit (Observe ''scheduling_duration_seconds'' (snd (ctx_NamespacedName c))) s'))"

subsection \<open>bind\<close>

definition notReadyTolerations :: "Toleration list" where
  "notReadyTolerations =
     [\<lparr>tol_Key = NotReadyTaintKey, tol_Operator = ''Equal'', tol_Value = '''',
       tol_Effect = ''NoSchedule''\<rparr>,
      \<lparr>tol_Key = TaintNodeNotReady, tol_Operator = ''Equal'', tol_Value = '''',
       tol_Effect = ''NoSchedule''\<rparr>]"

definition newBinding :: "Pod \<Rightarrow> K8sNode \<Rightarrow> Binding" where
  "newBinding pod node =
     \<lparr>bind_TypeMeta = pod_TypeMeta pod, bind_Namespace = pod_Namespace pod,
      bind_Name = pod_Name pod, bind_Target = k8s_Name node\<rparr>"

text \<open>The work piece of \<open>bind\<close>, for the pod at index \<open>i\<close>; the indices handed out are
  below \<open>len(pods)\<close>.\<close>

definition bind_piece :: "'w ext \<Rightarrow> ctx \<Rightarrow> K8sNode \<Rightarrow> Pod list \<Rightarrow> nat \<Rightarrow> 'w state \<Rightarrow> 'w state" where
  "bind_piece x c node pods i s =
     (let pod = pods ! i in
      if Taints_Tolerates x (k8s_Taints node) pod notReadyTolerations \<noteq> None
      then emit (PodShouldSchedule pod node) s
      else
        (case call (PodsBind (pod_Namespace (pods ! i)) (newBinding pod node))
                   (Pods_Bind x (pod_Namespace (pods ! i)) (newBinding pod node)) s of
           (Some e, s1) \<Rightarrow>
             logf c Error ''Failed to bind %s/%s to %s, %s''
               [AStr (pod_Namespace pod), AStr (pod_Name pod), AStr (k8s_Name node), AErr e] s1
         | (None, s1) \<Rightarrow> s1))"

definition bind :: "'w ext \<Rightarrow> ctx \<Rightarrow> K8sNode \<Rightarrow> Pod list \<Rightarrow> 'w state \<Rightarrow> err option \<times> 'w state" where
  "bind x c node pods s =
     (let s1 = ParallelizeUntil (ctx_Done x) (workqueue_interleaving x (world s)) (length pods)
                 (bind_piece x c node pods) s
      in (None, emit (Observe ''bind_duration_seconds'' (snd (ctx_NamespacedName c))) s1))"

subsection \<open>launch\<close>

definition newNodeRequest :: "Node \<Rightarrow> NodeRequest" where
  "newNodeRequest node =
     \<lparr>nr_InstanceTypeOptions = node_InstanceTypeOptions node,
      nr_Template =
        \<lparr>tmpl_Provider = prov_Provider (node_Provisioner node),
         tmpl_Labels = prov_Labels (node_Provisioner node),
         tmpl_Taints = prov_Taints (node_Provisioner node) @ prov_StartupTaints (node_Provisioner node),
         tmpl_Requirements = prov_Requirements (node_Provisioner node),
         tmpl_KubeletConfiguration = prov_KubeletConfiguration (node_Provisioner node)\<rparr>\<rparr>"

definition launch :: "'w ext \<Rightarrow> ctx \<Rightarrow> Node \<Rightarrow> 'w state \<Rightarrow> err option \<times> 'w state" where
  "launch x c node s =
     (case call (KubeGetProvisioner (ObjectKeyFromObject (node_Provisioner node)))
                (kubeClient_Get_Provisioner x (ObjectKeyFromObject (node_Provisioner node))) s of
        (Inl e, s1) \<Rightarrow> (Some (Errorf ''getting current resource usage, %w'' [] (Some e)), s1)
      | (Inr latest, s1) \<Rightarrow>
     (case Limits_ExceededBy x (prov_Limits latest) (prov_Status_Resources latest) of
        Some e \<Rightarrow> (Some e, s1)
      | None \<Rightarrow>
     (case call (CloudCreate (newNodeRequest node)) (cloudProvider_Create x (newNodeRequest node)) s1 of
        (Inl e, s2) \<Rightarrow> (Some (Errorf ''creating cloud provider machine, %w'' [] (Some e)), s2)
      | (Inr created, s2) \<Rightarrow>
     (case mergo_Merge x created (Spec_ToNode x (node_Provisioner node)) of
        Inl e \<Rightarrow> (Some (Errorf ''merging cloud provider node, %w'' [] (Some e)), s2)
      | Inr k8sNode \<Rightarrow>
     (case call (NodesCreate k8sNode) (Nodes_Create x k8sNode) s2 of
        (r, s3) \<Rightarrow>
     (case (case r of
              None \<Rightarrow> Inr s3
            | Some e \<Rightarrow>
                if IsAlreadyExists e
                then Inr (logf c Debug ''node %s already registered'' [AStr (k8s_Name k8sNode)] s3)
                else Inl (Errorf ''creating node %s, %w'' [k8s_Name k8sNode] (Some e))) of
        Inl e \<Rightarrow> (Some e, s3)
      | Inr s4 \<Rightarrow>
     (case bind x c k8sNode (node_Pods node) (logf c Info ''Created %s'' [ANode node] s4) of
        (Some e, s5) \<Rightarrow> (Some (Errorf ''binding pods, %w'' [] (Some e)), s5)
      | (None, s5) \<Rightarrow> (None, s5))))))))"

subsection \<open>provision\<close>

text \<open>The work piece of \<open>provision\<close>, for the node at index \<open>i\<close>: it launches the
  node under a context of its own and logs the error of the launch.\<close>

definition launch_piece :: "'w ext \<Rightarrow> ctx \<Rightarrow> Node list \<Rightarrow> nat \<Rightarrow> 'w state \<Rightarrow> 'w state" where
  "launch_piece x c nodes i s =
     (let ctx2 = \<lparr>ctx_logger = ctx_logger c @ [(''provisioner'', prov_Name (node_Provisioner (nodes ! i)))],
                 ctx_NamespacedName = ObjectKeyFromObject (node_Provisioner (nodes ! i))\<rparr>
      in case launch x ctx2 (nodes ! i) s of
           (Some e, s1) \<Rightarrow> logf ctx2 Error ''Launching node, %s'' [AErr e] s1
         | (None, s1) \<Rightarrow> s1)"

definition provision_body :: "'w ext \<Rightarrow> ctx \<Rightarrow> 'w state \<Rightarrow> err option \<times> 'w state" where
  "provision_body x c s =
     (case call BatcherWait (batcher_Wait x) (logf c Info ''Waiting for unschedulable pods'' [] s) of
        (window, s1) \<Rightarrow>
     (case getPods x c s1 of
        (Inl e, s2) \<Rightarrow> (Some e, s2)
      | (Inr pods, s2) \<Rightarrow>
     if length pods = 0 then (None, s2)
     else
     (case schedule x c pods
             (logf c Info ''Batched %d pod(s) in %s'' [ANat (length pods), ANat window] s2) of
        (Inl e, s3) \<Rightarrow> (Some e, s3)
      | (Inr nodes, s3) \<Rightarrow>
          (None, ParallelizeUntil (ctx_Done x) (workqueue_interleaving x (world s3)) (length nodes)
                   (launch_piece x c nodes) s3))))"

text \<open>The deferred \<open>p.cond.Broadcast()\<close> runs on every way out.\<close>

definition provision :: "'w ext \<Rightarrow> ctx \<Rightarrow> 'w state \<Rightarrow> err option \<times> 'w state" where
  "provision x c s = (case provision_body x c s of (r, s') \<Rightarrow> (r, emit CondBroadcast s'))"

subsection \<open>The driver started by NewProvisioner\<close>

text \<open>
  The goroutine of \<open>NewProvisioner\<close>: \<open>for running.Err() == nil\<close>. It may run for ever;
  \<open>None\<close> is the loop that does not return, \<open>Some s\<close> the state it leaves behind.
\<close>

partial_function (option) NewProvisioner_loop :: "'w ext \<Rightarrow> ctx \<Rightarrow> 'w state \<Rightarrow> 'w state option" where
  "NewProvisioner_loop x running s =
     (if ctx_Err x (world s)
      then Some (logf running Info ''Stopped provisioner'' [] s)
      else (case provision x running s of
              (Some e, s1) \<Rightarrow>
                NewProvisioner_loop x running (logf running Error ''Provisioning failed, %s'' [AErr e] s1)
            | (None, s1) \<Rightarrow> NewProvisioner_loop x running s1))"

section \<open>Notions used to state the properties\<close>

text \<open>
  The answers that the validation of persistent volume claims gives for the pods of a
  listing, asked in the order of the listing, from the world \<open>w\<close> on.
\<close>

fun pvc_answers :: "'w ext \<Rightarrow> Pod list \<Rightarrow> 'w \<Rightarrow> err option list" where
  "pvc_answers x [] w = []"
| "pvc_answers x (pod # items) w =
     (case validatePersistentVolumeClaims x pod w of (e, w') \<Rightarrow> e # pvc_answers x items w')"

text \<open>
  The pods of a listing that pass the pod validation, whose volume claims pass (the
  answer paired with the pod is nil) and that are provisionable, in the order of the
  listing.
\<close>

definition batchable :: "'w ext \<Rightarrow> Pod list \<Rightarrow> err option list \<Rightarrow> Pod list" where
  "batchable x items answers =
     map fst (filter (\<lambda>(pod, e2). validate x pod = None \<and> e2 = None \<and> isProvisionable x pod)
                (zip items answers))"

text \<open>
  The pods of the daemon sets that a provisioner has to carry: those that tolerate its
  taints and are compatible with its requirements.
\<close>

definition daemonsFor :: "'w ext \<Rightarrow> Provisioner \<Rightarrow> DaemonSet list \<Rightarrow> Pod list" where
  "daemonsFor x provisioner daemonSets =
     filter (\<lambda>p. Taints_Tolerates x (prov_Taints provisioner) p [] = None \<and>
                 Requirements_Compatible x (prov_Requirements provisioner)
                   (NewPodRequirements x p) = None)
       (map daemonPod daemonSets)"

text \<open>
  The steps that the worker pool of \<open>bind\<close> makes, the pool after it has made some of
  them, and the pieces it has worked when it is done, in the order in which it worked them.
\<close>

definition bind_steps :: "'w ext \<Rightarrow> Pod list \<Rightarrow> 'w state \<Rightarrow> step list" where
  "bind_steps x pods s = pool_steps (workqueue_interleaving x (world s)) (length pods)"

definition bind_pool_after ::
  "'w ext \<Rightarrow> ctx \<Rightarrow> K8sNode \<Rightarrow> Pod list \<Rightarrow> step list \<Rightarrow> 'w state \<Rightarrow> 'w pool" where
  "bind_pool_after x c node pods steps s =
     pool_run (ctx_Done x) (length pods) (bind_piece x c node pods) steps (pool_start s)"

definition bind_worked :: "'w ext \<Rightarrow> ctx \<Rightarrow> K8sNode \<Rightarrow> Pod list \<Rightarrow> 'w state \<Rightarrow> nat list" where
  "bind_worked x c node pods s =
     pool_worked (bind_pool_after x c node pods (bind_steps x pods s) s)"

text \<open>The same for the worker pool that \<open>provision\<close> starts for the launches.\<close>

definition launch_steps :: "'w ext \<Rightarrow> Node list \<Rightarrow> 'w state \<Rightarrow> step list" where
  "launch_steps x nodes s = pool_steps (workqueue_interleaving x (world s)) (length nodes)"

definition launch_pool_after ::
  "'w ext \<Rightarrow> ctx \<Rightarrow> Node list \<Rightarrow> step list \<Rightarrow> 'w state \<Rightarrow> 'w pool" where
  "launch_pool_after x c nodes steps s =
     pool_run (ctx_Done x) (length nodes) (launch_piece x c nodes) steps (pool_start s)"

definition launch_worked :: "'w ext \<Rightarrow> ctx \<Rightarrow> Node list \<Rightarrow> 'w state \<Rightarrow> nat list" where
  "launch_worked x c nodes s =
     pool_worked (launch_pool_after x c nodes (launch_steps x nodes s) s)"

text \<open>What the piece of \<open>bind\<close> for the pod of index \<open>j\<close> may add to the trace: the event for
  a pod that does not tolerate the taints, the binding of a pod that does, a log line.\<close>

definition bind_piece_event :: "'w ext \<Rightarrow> K8sNode \<Rightarrow> Pod list \<Rightarrow> nat \<Rightarrow> event \<Rightarrow> bool" where
  "bind_piece_event x node pods j ev \<longleftrightarrow>
     (ev = PodShouldSchedule (pods ! j) node \<and>
        Taints_Tolerates x (k8s_Taints node) (pods ! j) notReadyTolerations \<noteq> None) \<or>
     (ev = PodsBind (pod_Namespace (pods ! j)) (newBinding (pods ! j) node) \<and>
        Taints_Tolerates x (k8s_Taints node) (pods ! j) notReadyTolerations = None) \<or>
     (case ev of Logf l fs fmt args \<Rightarrow> True | _ \<Rightarrow> False)"

text \<open>The context that \<open>provision\<close> builds for the launch of a node.\<close>

definition launch_ctx :: "ctx \<Rightarrow> Node \<Rightarrow> ctx" where
  "launch_ctx c node =
     \<lparr>ctx_logger = ctx_logger c @ [(''provisioner'', prov_Name (node_Provisioner node))],
      ctx_NamespacedName = ObjectKeyFromObject (node_Provisioner node)\<rparr>"

section \<open>Concrete clusters\<close>

text \<open>
  Objects and collaborators on which the properties are run. The world is a counter
  that some of the calls advance; a context that is cancelled is cancelled from some
  count on.
\<close>

definition m5_large :: InstanceType where
  "m5_large = \<lparr>it_Name = ''m5.large'', it_Architecture = ''amd64'',
               it_Resources = [''cpu'' \<mapsto> 2]\<rparr>"

definition p3_2xlarge :: InstanceType where
  "p3_2xlarge = \<lparr>it_Name = ''p3.2xlarge'', it_Architecture = ''amd64'',
                 it_Resources = [''cpu'' \<mapsto> 8, ''nvidia.com/gpu'' \<mapsto> 1]\<rparr>"

definition al2 :: Options where
  "al2 = \<lparr>opt_ClusterName = ''prod'', opt_ClusterEndpoint = ''https://prod.example'',
          opt_AWSENILimitedPodDensity = True\<rparr>"

definition podA :: Pod where
  "podA = \<lparr>pod_TypeMeta = ''Pod'', pod_Namespace = ''default'', pod_Name = ''web-0'',
           pod_Spec = \<lparr>spec_NodeName = '''', spec_Tolerations = [],
                       spec_Requests = [[''cpu'' \<mapsto> 4]]\<rparr>\<rparr>"

definition podB :: Pod where
  "podB = \<lparr>pod_TypeMeta = ''Pod'', pod_Namespace = ''default'', pod_Name = ''web-1'',
           pod_Spec = \<lparr>spec_NodeName = '''', spec_Tolerations = [],
                       spec_Requests = [[''cpu'' \<mapsto> 1]]\<rparr>\<rparr>"

definition provA :: Provisioner where
  "provA = \<lparr>prov_Name = ''default'', prov_Labels = Map.empty, prov_Taints = [],
            prov_StartupTaints = [], prov_Requirements = \<lparr>req_Requirements = []\<rparr>,
            prov_KubeletConfiguration = None, prov_Provider = ''aws'',
            prov_Limits = Some [''cpu'' \<mapsto> 10], prov_Status_Resources = [''cpu'' \<mapsto> 8]\<rparr>"

definition provB :: Provisioner where
  "provB = provA\<lparr>prov_Name := ''batch''\<rparr>"

definition nodeA :: Node where
  "nodeA = \<lparr>node_Provisioner = provA, node_InstanceTypeOptions = [m5_large], node_Pods = [podA]\<rparr>"

definition nodeB :: Node where
  "nodeB = \<lparr>node_Provisioner = provB, node_InstanceTypeOptions = [m5_large], node_Pods = [podB]\<rparr>"

definition machineA :: K8sNode where
  "machineA = \<lparr>k8s_Name = ''ip-10-0-0-1'', k8s_Labels = Map.empty, k8s_Taints = []\<rparr>"

definition dedicated :: Taint where
  "dedicated = \<lparr>taint_Key = ''dedicated'', taint_Value = ''gpu'', taint_Effect = ''NoSchedule''\<rparr>"

definition notReady :: Taint where
  "notReady = \<lparr>taint_Key = ''karpenter.sh/not-ready'', taint_Value = '''',
               taint_Effect = ''NoSchedule''\<rparr>"

definition machineT :: K8sNode where
  "machineT = \<lparr>k8s_Name = ''ip-10-0-0-2'', k8s_Labels = Map.empty,
               k8s_Taints = [notReady, dedicated]\<rparr>"

definition machineN :: K8sNode where
  "machineN = \<lparr>k8s_Name = ''ip-10-0-0-3'', k8s_Labels = Map.empty, k8s_Taints = [notReady]\<rparr>"

definition provT :: Provisioner where
  "provT = provA\<lparr>prov_Name := ''gpu'', prov_Taints := [dedicated], prov_StartupTaints := [notReady]\<rparr>"

definition dsLogging :: DaemonSet where
  "dsLogging = \<lparr>ds_Name = ''fluentd'',
                ds_Template_Spec =
                  \<lparr>spec_NodeName = '''',
                   spec_Tolerations = [\<lparr>tol_Key = ''dedicated'', tol_Operator = ''Exists'',
                                        tol_Value = '''', tol_Effect = ''NoSchedule''\<rparr>],
                   spec_Requests = [[''cpu'' \<mapsto> 1], [''cpu'' \<mapsto> 2]]\<rparr>\<rparr>"

definition dsProxy :: DaemonSet where
  "dsProxy = \<lparr>ds_Name = ''proxy'',
              ds_Template_Spec = \<lparr>spec_NodeName = '''', spec_Tolerations = [],
                                  spec_Requests = [[''cpu'' \<mapsto> 5]]\<rparr>\<rparr>"

definition ctx0 :: ctx where
  "ctx0 = \<lparr>ctx_logger = [], ctx_NamespacedName = ('''', '''')\<rparr>"

text \<open>A pod tolerates the taints when each taint's key is the key of one of its
  tolerations or of the additional ones.\<close>

definition tolerates0 :: "Taint list \<Rightarrow> Pod \<Rightarrow> Toleration list \<Rightarrow> err option" where
  "tolerates0 taints pod additional =
     (if list_all (\<lambda>t. taint_Key t \<in> set (map tol_Key (spec_Tolerations (pod_Spec pod) @ additional)))
           taints
      then None else Some (ErrorNew ''did not tolerate''))"

text \<open>A limit is exceeded when the usage of cpu has reached it.\<close>

definition exceededBy0 :: "ResourceList option \<Rightarrow> ResourceList \<Rightarrow> err option" where
  "exceededBy0 limits usage =
     (case limits of
        None \<Rightarrow> None
      | Some l \<Rightarrow>
          (case l ''cpu'' of
             None \<Rightarrow> None
           | Some limit \<Rightarrow>
               if limit \<le> index_ResourceList usage ''cpu''
               then Some (ErrorNew ''cpu resource usage exceeds limit'') else None))"

text \<open>The requests of pods are the sum of the cpu their containers ask for.\<close>

definition requests0 :: "Pod list \<Rightarrow> ResourceList" where
  "requests0 pods =
     [''cpu'' \<mapsto> sum_list (map (\<lambda>p. sum_list (map (\<lambda>r. index_ResourceList r ''cpu'')
                                      (spec_Requests (pod_Spec p)))) pods)]"

text \<open>A cluster in which every call succeeds. The workers of a pool take and work the
  pieces one after the other.\<close>

definition ext0 :: "nat ext" where
  "ext0 =
     \<lparr>ctx_Err = (\<lambda>w. False),
      batcher_Wait = (\<lambda>w. (1, w)),
      kubeClient_List_Pods = (\<lambda>fields w. (Inr [podA, podB], w)),
      validate = (\<lambda>pod. None),
      validatePersistentVolumeClaims = (\<lambda>pod w. (None, w)),
      isProvisionable = (\<lambda>pod. True),
      kubeClient_List_Provisioners = (\<lambda>w. (Inr [provA, provB], w)),
      cloudProvider_GetRequirements = (\<lambda>provider w. (Inr \<lparr>req_Requirements = []\<rparr>, w)),
      cloudProvider_GetInstanceTypes = (\<lambda>provider w. (Inr [m5_large], w)),
      cloudprovider_Requirements = (\<lambda>its. \<lparr>req_Requirements = []\<rparr>),
      functional_UnionStringMaps = (\<lambda>a b. a ++ b),
      NewRequirements = (\<lambda>rs. \<lparr>req_Requirements = rs\<rparr>),
      NewLabelRequirements = (\<lambda>labels. \<lparr>req_Requirements = []\<rparr>),
      NewPodRequirements = (\<lambda>pod. \<lparr>req_Requirements = []\<rparr>),
      Requirements_Add = (\<lambda>r rs. \<lparr>req_Requirements = req_Requirements r @ rs\<rparr>),
      Requirements_Compatible = (\<lambda>a b. None),
      Taints_Tolerates = tolerates0,
      Limits_ExceededBy = exceededBy0,
      resources_RequestsForPods = requests0,
      volumeTopology_Inject = (\<lambda>pod w. (Inr pod, w)),
      scheduling_NewTopology = (\<lambda>provisioners pods w. (Inr 0, w)),
      kubeClient_List_DaemonSets = (\<lambda>w. (Inr [dsLogging, dsProxy], w)),
      Scheduler_Solve = (\<lambda>provisioners topology instanceTypes overhead pods w. (Inr [nodeA, nodeB], w)),
      kubeClient_Get_Provisioner = (\<lambda>key w. (Inr provA, Suc w)),
      cloudProvider_Create = (\<lambda>request w. (Inr machineA, w)),
      Spec_ToNode = (\<lambda>p. \<lparr>k8s_Name = '''', k8s_Labels = prov_Labels p,
                            k8s_Taints = prov_Taints p @ prov_StartupTaints p\<rparr>),
      mergo_Merge = (\<lambda>dst src. Inr (dst\<lparr>k8s_Labels := k8s_Labels src ++ k8s_Labels dst,
                                         k8s_Taints := (if k8s_Taints dst = [] then k8s_Taints src
                                                        else k8s_Taints dst)\<rparr>)),
      Nodes_Create = (\<lambda>node w. (None, w)),
      Pods_Bind = (\<lambda>namespace binding w. (None, w)),
      workqueue_interleaving = (\<lambda>w. [])\<rparr>"

definition s0 :: "nat state" where
  "s0 = \<lparr>world = 0, trace = []\<rparr>"

text \<open>The store reports a usage of 12 cpu for the provisioner, over its limit of 10; the copy
  of the provisioner in the synthetic node still says 8.\<close>

definition ext_exceeded :: "nat ext" where
  "ext_exceeded = ext0\<lparr>kubeClient_Get_Provisioner :=
      (\<lambda>key w. (Inr (provA\<lparr>prov_Status_Resources := [''cpu'' \<mapsto> 12]\<rparr>), Suc w))\<rparr>"

text \<open>The node has registered itself before the controller does.\<close>

definition ext_exists :: "nat ext" where
  "ext_exists = ext0\<lparr>Nodes_Create :=
      (\<lambda>node w. (Some (StatusError StatusReasonAlreadyExists ''nodes already exists''), w))\<rparr>"

text \<open>The context is cancelled from the start.\<close>

definition ext_stopped :: "nat ext" where
  "ext_stopped = ext0\<lparr>ctx_Err := (\<lambda>w. True)\<rparr>"

text \<open>Reading the provisioner \<open>default\<close> fails; the other reads succeed.\<close>

definition ext_first_fails :: "nat ext" where
  "ext_first_fails = ext0\<lparr>kubeClient_Get_Provisioner :=
      (\<lambda>key w. if snd key = ''default''
                then (Inl (StatusError StatusReasonNotFound ''not found''), Suc w)
                else (Inr provB, Suc w))\<rparr>"

text \<open>Listing the pods fails, and the context is cancelled during that pass.\<close>

definition ext_pass_fails :: "nat ext" where
  "ext_pass_fails = ext0\<lparr>ctx_Err := (\<lambda>w. 1 \<le> w),
      kubeClient_List_Pods := (\<lambda>fields w. (Inl (ErrorNew ''timeout''), Suc w))\<rparr>"

text \<open>The store holds no provisioner.\<close>

definition ext_no_provisioners :: "nat ext" where
  "ext_no_provisioners = ext0\<lparr>kubeClient_List_Provisioners := (\<lambda>w. (Inr [], w))\<rparr>"

text \<open>The pod \<open>web-1\<close> does not pass the validation.\<close>

definition ext_invalid :: "nat ext" where
  "ext_invalid = ext0\<lparr>validate :=
      (\<lambda>pod. if pod_Name pod = ''web-1'' then Some (ErrorNew ''unsupported'') else None)\<rparr>"

text \<open>Every binding is refused by the store.\<close>

definition ext_bind_fails :: "nat ext" where
  "ext_bind_fails = ext0\<lparr>Pods_Bind := (\<lambda>namespace binding w. (Some (ErrorNew ''conflict''), w))\<rparr>"

text \<open>The store accepts the bindings; the context is cancelled while the first binding is
  made. The pieces are taken one after the other.\<close>

definition ext_bind_cancel :: "nat ext" where
  "ext_bind_cancel = ext0\<lparr>ctx_Err := (\<lambda>w. 1 \<le> w),
      Pods_Bind := (\<lambda>namespace binding w. (None, Suc w))\<rparr>"

text \<open>The same, but both workers have taken their piece and looked at the context before
  the first binding is made.\<close>

definition ext_bind_cancel_late :: "nat ext" where
  "ext_bind_cancel_late = ext_bind_cancel\<lparr>workqueue_interleaving := (\<lambda>w. [Select 0, Select 1])\<rparr>"

text \<open>The store answers the registration of the node with a combination of errors, one of
  which says that the node exists already.\<close>

definition ext_exists_combined :: "nat ext" where
  "ext_exists_combined = ext0\<lparr>Nodes_Create :=
      (\<lambda>node w. (Some (Multierr [ErrorNew ''webhook timeout'',
                                 StatusError StatusReasonAlreadyExists ''nodes already exists'']), w))\<rparr>"

text \<open>The store refuses the registration of the node.\<close>

definition ext_forbidden :: "nat ext" where
  "ext_forbidden = ext0\<lparr>Nodes_Create :=
      (\<lambda>node w. (Some (StatusError (StatusReasonOther ''Forbidden'') ''nodes is forbidden''), w))\<rparr>"

lemmas cluster_defs =
  ext0_def s0_def ctx0_def nodeA_def nodeB_def provA_def provB_def provT_def podA_def podB_def
  machineA_def machineT_def machineN_def dedicated_def notReady_def m5_large_def p3_2xlarge_def
  al2_def dsLogging_def dsProxy_def tolerates0_def exceededBy0_def requests0_def
  ext_exceeded_def ext_exists_def ext_stopped_def ext_first_fails_def ext_pass_fails_def
  ext_no_provisioners_def ext_invalid_def ext_bind_fails_def ext_bind_cancel_def
  ext_bind_cancel_late_def ext_exists_combined_def ext_forbidden_def

lemmas run_defs =
  provision_def provision_body_def getPods_def call_def logf_def emit_def multierr_Combine_def
  List.map_filter_simps schedule_def schedule_body_def getDaemonOverhead_def Let_def
  launch_piece_def launch_def bind_def bind_piece_def ctx_Done_def ObjectKeyFromObject_def
  index_ResourceList_def newNodeRequest_def newBinding_def notReadyTolerations_def
  NotReadyTaintKey_def TaintNodeNotReady_def ProvisionerNameLabelKey_def daemonPod_def
  launch_ctx_def batchable_def daemonsFor_def ParallelizeUntil_def pool_steps_def pool_start_def
  pool_step_def bind_steps_def bind_pool_after_def bind_worked_def launch_steps_def
  launch_pool_after_def launch_worked_def IsAlreadyExists_def

section \<open>Lemmas about the model\<close>

lemma containerRuntime_Cons:
  "containerRuntime a (it0 # rest) =
     Inr (if index_ResourceList (it_Resources it0) ResourceNVIDIAGPU = 0 \<and>
             index_ResourceList (it_Resources it0) ResourceAMDGPU = 0 \<and>
             index_ResourceList (it_Resources it0) ResourceAWSNeuron = 0
          then ''containerd'' else ''dockerd'')"
  by (simp add: containerRuntime_def resources_IsZero_def Let_def)

lemma pool_run_append:
  "pool_run stop n f (xs @ ys) p = pool_run stop n f ys (pool_run stop n f xs p)"
  by (induction xs arbitrary: p) simp_all

text \<open>The state of a pool is the state it started from, changed by the pieces it worked,
  in the order in which it worked them.\<close>

lemma pool_run_worked:
  "\<exists>ws. pool_worked (pool_run stop n f steps p) = pool_worked p @ ws \<and>
        pool_state (pool_run stop n f steps p) = foldl (\<lambda>t j. f j t) (pool_state p) ws"
proof (induction steps arbitrary: p)
  case Nil
  then show ?case by simp
next
  case (Cons st steps)
  obtain ws where ws: "pool_worked (pool_run stop n f steps (pool_step stop n f st p)) =
        pool_worked (pool_step stop n f st p) @ ws"
      "pool_state (pool_run stop n f steps (pool_step stop n f st p)) =
        foldl (\<lambda>t j. f j t) (pool_state (pool_step stop n f st p)) ws"
    using Cons.IH by blast
  show ?case
  proof (cases st)
    case (Select i)
    with ws show ?thesis by (auto simp: pool_step_def)
  next
    case (Work i)
    show ?thesis
    proof (cases "i \<in> set (pool_admitted p) \<and> i \<notin> set (pool_worked p)")
      case True
      with ws Work have "pool_worked (pool_run stop n f (st # steps) p) = pool_worked p @ (i # ws)"
        and "pool_state (pool_run stop n f (st # steps) p) =
             foldl (\<lambda>t j. f j t) (pool_state p) (i # ws)"
        by (simp_all add: pool_step_def)
      then show ?thesis by blast
    next
      case False
      with ws Work show ?thesis by (auto simp: pool_step_def)
    qed
  qed
qed

lemma pool_run_distinct:
  "distinct (pool_worked p) \<Longrightarrow> distinct (pool_worked (pool_run stop n f steps p))"
proof (induction steps arbitrary: p)
  case Nil
  then show ?case by simp
next
  case (Cons st steps)
  from Cons.prems have "distinct (pool_worked (pool_step stop n f st p))"
    by (cases st) (auto simp: pool_step_def)
  then show ?case by (simp add: Cons.IH)
qed

text \<open>A piece that has not been taken stays out of the pool while no worker takes it.\<close>

lemma pool_untouched:
  "Select i \<notin> set steps \<Longrightarrow>
   i \<notin> set (pool_taken p) \<and> i \<notin> set (pool_admitted p) \<and> i \<notin> set (pool_worked p) \<Longrightarrow>
   i \<notin> set (pool_taken (pool_run stop n f steps p)) \<and>
   i \<notin> set (pool_admitted (pool_run stop n f steps p)) \<and>
   i \<notin> set (pool_worked (pool_run stop n f steps p))"
proof (induction steps arbitrary: p)
  case Nil
  then show ?case by simp
next
  case (Cons st steps)
  from Cons.prems have
    "i \<notin> set (pool_taken (pool_step stop n f st p)) \<and>
     i \<notin> set (pool_admitted (pool_step stop n f st p)) \<and>
     i \<notin> set (pool_worked (pool_step stop n f st p))"
    by (cases st) (auto simp: pool_step_def)
  moreover from Cons.prems have "Select i \<notin> set steps" by simp
  ultimately show ?case using Cons.IH by simp
qed

text \<open>A piece that was taken and not admitted is never worked.\<close>

lemma pool_refused:
  "i \<in> set (pool_taken p) \<and> i \<notin> set (pool_admitted p) \<and> i \<notin> set (pool_worked p) \<Longrightarrow>
   i \<notin> set (pool_worked (pool_run stop n f steps p))"
proof (induction steps arbitrary: p)
  case Nil
  then show ?case by simp
next
  case (Cons st steps)
  from Cons.prems have
    "i \<in> set (pool_taken (pool_step stop n f st p)) \<and>
     i \<notin> set (pool_admitted (pool_step stop n f st p)) \<and>
     i \<notin> set (pool_worked (pool_step stop n f st p))"
    by (cases st) (auto simp: pool_step_def)
  then show ?case using Cons.IH by simp
qed

text \<open>A piece that was admitted is worked by the first step that asks for it.\<close>

lemma pool_admitted_worked:
  "i \<in> set (pool_admitted p) \<Longrightarrow> Work i \<in> set steps \<or> i \<in> set (pool_worked p) \<Longrightarrow>
   i \<in> set (pool_worked (pool_run stop n f steps p))"
proof (induction steps arbitrary: p)
  case Nil
  then show ?case by simp
next
  case (Cons st steps)
  from Cons.prems(1) have a: "i \<in> set (pool_admitted (pool_step stop n f st p))"
    by (cases st) (auto simp: pool_step_def)
  from Cons.prems have "Work i \<in> set steps \<or> i \<in> set (pool_worked (pool_step stop n f st p))"
    by (cases st) (auto simp: pool_step_def)
  with a show ?case using Cons.IH by simp
qed

lemma pool_steps_Select: "i < n \<Longrightarrow> Select i \<in> set (pool_steps il n)"
  by (auto simp: pool_steps_def)

text \<open>After the step that takes a piece for the first time, a step that works the piece is
  still to come.\<close>

lemma pool_steps_Work:
  assumes "i < n" and "pool_steps il n = pre @ Select i # rest" and "Select i \<notin> set pre"
  shows "Work i \<in> set rest"
proof -
  from \<open>i < n\<close> have "[0..<n] = [0..<i] @ [i..<n]"
    by (metis le0 less_imp_le upt_add_eq_append le_add_diff_inverse)
  with \<open>i < n\<close> have "[0..<n] = [0..<i] @ i # [Suc i..<n]"
    by (simp add: upt_conv_Cons)
  then have "pool_steps il n =
      (il @ concat (map (\<lambda>i. [Select i, Work i]) [0..<i])) @ Select i #
      (Work i # concat (map (\<lambda>i. [Select i, Work i]) [Suc i..<n]))"
    by (simp add: pool_steps_def)
  with assms(2) have "pre @ Select i # rest =
      (il @ concat (map (\<lambda>i. [Select i, Work i]) [0..<i])) @ Select i #
      (Work i # concat (map (\<lambda>i. [Select i, Work i]) [Suc i..<n]))"
    by simp
  then obtain us where
    "pre = (il @ concat (map (\<lambda>i. [Select i, Work i]) [0..<i])) @ us \<and>
       us @ Select i # rest = Select i # Work i # concat (map (\<lambda>i. [Select i, Work i]) [Suc i..<n]) \<or>
     pre @ us = il @ concat (map (\<lambda>i. [Select i, Work i]) [0..<i]) \<and>
       Select i # rest = us @ Select i # Work i # concat (map (\<lambda>i. [Select i, Work i]) [Suc i..<n])"
    unfolding append_eq_append_conv2 by blast
  then show ?thesis
  proof (elim disjE conjE)
    assume p: "pre = (il @ concat (map (\<lambda>i. [Select i, Work i]) [0..<i])) @ us"
      and u: "us @ Select i # rest = Select i # Work i # concat (map (\<lambda>i. [Select i, Work i]) [Suc i..<n])"
    from p assms(3) have "Select i \<notin> set us" by simp
    with u have "us = []" by (cases us) auto
    with u show ?thesis by simp
  next
    assume u: "Select i # rest = us @ Select i # Work i # concat (map (\<lambda>i. [Select i, Work i]) [Suc i..<n])"
    then show ?thesis by (cases us) auto
  qed
qed

text \<open>A piece is worked exactly when the context was not cancelled at the step that took it.\<close>

lemma pool_worked_iff:
  assumes "i < n" and "pool_steps il n = pre @ Select i # rest" and "Select i \<notin> set pre"
  shows "i \<in> set (pool_worked (pool_run stop n f (pool_steps il n) (pool_start s))) \<longleftrightarrow>
         \<not> stop (pool_state (pool_run stop n f pre (pool_start s)))"
proof -
  define q where "q = pool_run stop n f pre (pool_start s)"
  have q: "i \<notin> set (pool_taken q) \<and> i \<notin> set (pool_admitted q) \<and> i \<notin> set (pool_worked q)"
    unfolding q_def using assms(3) by (intro pool_untouched) (simp_all add: pool_start_def)
  have w: "Work i \<in> set rest" using assms by (rule pool_steps_Work)
  have run: "pool_run stop n f (pool_steps il n) (pool_start s) =
             pool_run stop n f rest (pool_step stop n f (Select i) q)"
    by (simp add: assms(2) pool_run_append q_def)
  show ?thesis
  proof (cases "stop (pool_state q)")
    case True
    with q \<open>i < n\<close> have "i \<in> set (pool_taken (pool_step stop n f (Select i) q)) \<and>
        i \<notin> set (pool_admitted (pool_step stop n f (Select i) q)) \<and>
        i \<notin> set (pool_worked (pool_step stop n f (Select i) q))"
      by (simp add: pool_step_def)
    then have "i \<notin> set (pool_worked (pool_run stop n f rest (pool_step stop n f (Select i) q)))"
      by (rule pool_refused)
    with True show ?thesis by (simp add: run q_def)
  next
    case False
    with q \<open>i < n\<close> have "i \<in> set (pool_admitted (pool_step stop n f (Select i) q))"
      by (simp add: pool_step_def)
    then have "i \<in> set (pool_worked (pool_run stop n f rest (pool_step stop n f (Select i) q)))"
      using w by (intro pool_admitted_worked) simp_all
    with False show ?thesis by (simp add: run q_def)
  qed
qed

text \<open>The events that pieces add to the trace, worked one after the other.\<close>

lemma foldl_events:
  assumes "\<And>j t. \<exists>evs. trace (f j t) = trace t @ evs \<and> (\<forall>ev \<in> set evs. Q j ev)"
  shows "\<exists>evs. trace (foldl (\<lambda>t j. f j t) s js) = trace s @ evs \<and>
               (\<forall>ev \<in> set evs. \<exists>j \<in> set js. Q j ev)"
proof (induction js arbitrary: s)
  case Nil
  then show ?case by simp
next
  case (Cons j js)
  obtain evs1 where e1: "trace (f j s) = trace s @ evs1" "\<forall>ev \<in> set evs1. Q j ev"
    using assms by blast
  obtain evs2 where e2: "trace (foldl (\<lambda>t j. f j t) (f j s) js) = trace (f j s) @ evs2"
      "\<forall>ev \<in> set evs2. \<exists>j \<in> set js. Q j ev"
    using Cons.IH by blast
  have "trace (foldl (\<lambda>t j. f j t) s (j # js)) = trace s @ (evs1 @ evs2)"
    using e1 e2 by simp
  moreover have "\<forall>ev \<in> set (evs1 @ evs2). \<exists>k \<in> set (j # js). Q k ev"
    using e1 e2 by auto
  ultimately show ?case by blast
qed

text \<open>An event that the piece \<open>i\<close> adds to the trace is in the trace once pieces among which
  is \<open>i\<close> have been worked.\<close>

lemma foldl_member:
  assumes ext: "\<And>j t. \<exists>evs. trace (f j t) = trace t @ evs"
      and ev: "\<And>t. \<exists>evs. trace (f i t) = trace t @ evs \<and> ev \<in> set evs"
      and i: "i \<in> set js"
  shows "\<exists>evs. trace (foldl (\<lambda>t j. f j t) s js) = trace s @ evs \<and> ev \<in> set evs"
  using i
proof (induction js arbitrary: s)
  case Nil
  then show ?case by simp
next
  case (Cons j js)
  show ?case
  proof (cases "j = i")
    case True
    obtain evs1 where e1: "trace (f i s) = trace s @ evs1" "ev \<in> set evs1"
      using ev by blast
    have "\<exists>evs. trace (foldl (\<lambda>t j. f j t) (f i s) js) = trace (f i s) @ evs \<and>
                 (\<forall>e \<in> set evs. \<exists>j \<in> set js. True)"
      by (rule foldl_events) (use ext in simp)
    then obtain evs2 where "trace (foldl (\<lambda>t j. f j t) (f i s) js) = trace (f i s) @ evs2"
      by blast
    with e1 True show ?thesis by auto
  next
    case False
    with Cons.prems have "i \<in> set js" by simp
    from Cons.IH [OF this, of "f j s"] obtain evs2 where
      e2: "trace (foldl (\<lambda>t j. f j t) (f j s) js) = trace (f j s) @ evs2" "ev \<in> set evs2"
      by blast
    obtain evs1 where "trace (f j s) = trace s @ evs1" using ext by blast
    with e2 show ?thesis by auto
  qed
qed

lemma ParallelizeUntil_foldl:
  "ParallelizeUntil stop il n f s =
     foldl (\<lambda>t j. f j t) s (pool_worked (pool_run stop n f (pool_steps il n) (pool_start s)))"
  using pool_run_worked [of stop n f "pool_steps il n" "pool_start s"]
  by (auto simp: ParallelizeUntil_def pool_start_def)

lemma ParallelizeUntil_trace:
  assumes "\<And>i t. \<exists>evs. trace (f i t) = trace t @ evs"
  shows "\<exists>evs. trace (ParallelizeUntil stop il n f s) = trace s @ evs"
proof -
  have "\<And>j t. \<exists>evs. trace (f j t) = trace t @ evs \<and> (\<forall>ev \<in> set evs. True)"
    using assms by simp
  from foldl_events [of f "\<lambda>j ev. True", OF this] show ?thesis
    unfolding ParallelizeUntil_foldl by blast
qed

lemma bind_piece_trace: "\<exists>evs. trace (bind_piece x c node pods i t) = trace t @ evs"
  by (simp add: bind_piece_def Let_def emit_def logf_def call_def split: prod.splits option.splits)

lemma bind_piece_events:
  "\<exists>evs. trace (bind_piece x c node pods j t) = trace t @ evs \<and>
         (\<forall>ev \<in> set evs. bind_piece_event x node pods j ev)"
  by (auto simp: bind_piece_def bind_piece_event_def Let_def emit_def logf_def call_def
      split: prod.splits option.splits)

lemma bind_foldl:
  "snd (bind x c node pods s) =
     emit (Observe ''bind_duration_seconds'' (snd (ctx_NamespacedName c)))
       (foldl (\<lambda>t j. bind_piece x c node pods j t) s (bind_worked x c node pods s))"
  by (simp add: bind_def Let_def ParallelizeUntil_foldl bind_worked_def bind_pool_after_def
      bind_steps_def)

lemma bind_trace: "\<exists>evs. trace (snd (bind x c node pods s)) = trace s @ evs"
proof -
  obtain evs where
    "trace (ParallelizeUntil (ctx_Done x) (workqueue_interleaving x (world s)) (length pods)
              (bind_piece x c node pods) s) = trace s @ evs"
    using ParallelizeUntil_trace [where f = "bind_piece x c node pods", OF bind_piece_trace]
    by blast
  then show ?thesis by (simp add: bind_def Let_def emit_def)
qed

text \<open>What \<open>launch\<close> does once the cloud provider has created the machine and the node
  object has been sent to the store.\<close>

lemma launch_registered:
  assumes get: "kubeClient_Get_Provisioner x (ObjectKeyFromObject (node_Provisioner node)) (world s) =
                  (Inr latest, w1)"
      and lim: "Limits_ExceededBy x (prov_Limits latest) (prov_Status_Resources latest) = None"
      and create: "cloudProvider_Create x (newNodeRequest node) w1 = (Inr created, w2)"
      and merge: "mergo_Merge x created (Spec_ToNode x (node_Provisioner node)) = Inr k8sNode"
      and reg: "Nodes_Create x k8sNode w2 = (r, w3)"
      and s3: "s3 = \<lparr>world = w3, trace = trace s @
                 [KubeGetProvisioner (ObjectKeyFromObject (node_Provisioner node)),
                  CloudCreate (newNodeRequest node), NodesCreate k8sNode]\<rparr>"
  shows "launch x c node s =
           (case r of
              None \<Rightarrow>
                (None, snd (bind x c k8sNode (node_Pods node) (logf c Info ''Created %s'' [ANode node] s3)))
            | Some e \<Rightarrow>
                if IsAlreadyExists e
                then (None, snd (bind x c k8sNode (node_Pods node)
                        (logf c Info ''Created %s'' [ANode node]
                           (logf c Debug ''node %s already registered'' [AStr (k8s_Name k8sNode)] s3))))
                else (Some (Errorf ''creating node %s, %w'' [k8s_Name k8sNode] (Some e)), s3))"
  using assms by (simp add: launch_def call_def bind_def Let_def split: option.splits)

text \<open>Whatever happens, the first thing \<open>launch\<close> does is to read the provisioner.\<close>

lemma launch_trace:
  "\<exists>evs. trace (snd (launch x c node s)) =
          trace s @ KubeGetProvisioner (ObjectKeyFromObject (node_Provisioner node)) # evs"
proof -
  have b: "\<And>k pods t. \<exists>evs. trace (snd (bind x c k pods t)) = trace t @ evs"
    by (rule bind_trace)
  show ?thesis
  proof (cases "kubeClient_Get_Provisioner x (ObjectKeyFromObject (node_Provisioner node)) (world s)")
    case (Pair r1 w1)
    show ?thesis
    proof (cases r1)
      case (Inl e)
      with Pair show ?thesis by (simp add: launch_def call_def)
    next
      case (Inr latest)
      show ?thesis
      proof (cases "Limits_ExceededBy x (prov_Limits latest) (prov_Status_Resources latest)")
        case (Some e)
        with Pair Inr show ?thesis by (simp add: launch_def call_def)
      next
        case None
        obtain r2 w2 where c2: "cloudProvider_Create x (newNodeRequest node) w1 = (r2, w2)"
          by (cases "cloudProvider_Create x (newNodeRequest node) w1")
        show ?thesis
        proof (cases r2)
          case (Inl e)
          with Pair Inr None c2 show ?thesis by (simp add: launch_def call_def)
        next
          case created: (Inr created)
          show ?thesis
          proof (cases "mergo_Merge x created (Spec_ToNode x (node_Provisioner node))")
            case (Inl e)
            with Pair Inr None c2 created show ?thesis by (simp add: launch_def call_def)
          next
            case merged: (Inr k8sNode)
            obtain r3 w3 where c3: "Nodes_Create x k8sNode w2 = (r3, w3)"
              by (cases "Nodes_Create x k8sNode w2")
            define s3 where "s3 = \<lparr>world = w3, trace = trace s @
                 [KubeGetProvisioner (ObjectKeyFromObject (node_Provisioner node)),
                  CloudCreate (newNodeRequest node), NodesCreate k8sNode]\<rparr>"
            note eq = launch_registered
              [OF Pair [unfolded Inr] None c2 [unfolded created] merged c3 s3_def, of c]
            show ?thesis
            proof (cases r3)
              case None
              obtain evs where "trace (snd (bind x c k8sNode (node_Pods node)
                    (logf c Info ''Created %s'' [ANode node] s3))) =
                  trace (logf c Info ''Created %s'' [ANode node] s3) @ evs"
                using b by blast
              with eq None show ?thesis by (simp add: s3_def logf_def emit_def)
            next
              case (Some e)
              show ?thesis
              proof (cases "IsAlreadyExists e")
                case True
                obtain evs where "trace (snd (bind x c k8sNode (node_Pods node)
                    (logf c Info ''Created %s'' [ANode node]
                       (logf c Debug ''node %s already registered'' [AStr (k8s_Name k8sNode)] s3)))) =
                  trace (logf c Info ''Created %s'' [ANode node]
                       (logf c Debug ''node %s already registered'' [AStr (k8s_Name k8sNode)] s3)) @ evs"
                  using b by blast
                with eq Some True show ?thesis by (simp add: s3_def logf_def emit_def)
              next
                case False
                with eq Some show ?thesis by (simp add: s3_def)
              qed
            qed
          qed
        qed
      qed
    qed
  qed
qed

lemma launch_piece_eq:
  "launch_piece x c nodes i t =
     (case launch x (launch_ctx c (nodes ! i)) (nodes ! i) t of
        (None, t') \<Rightarrow> t'
      | (Some e, t') \<Rightarrow> logf (launch_ctx c (nodes ! i)) Error ''Launching node, %s'' [AErr e] t')"
  by (simp add: launch_piece_def launch_ctx_def Let_def split: prod.splits option.splits)

lemma launch_piece_trace: "\<exists>evs. trace (launch_piece x c nodes i t) = trace t @ evs"
proof -
  obtain evs where "trace (snd (launch x (launch_ctx c (nodes ! i)) (nodes ! i) t)) =
          trace t @ KubeGetProvisioner (ObjectKeyFromObject (node_Provisioner (nodes ! i))) # evs"
    using launch_trace by blast
  then show ?thesis
    by (cases "launch x (launch_ctx c (nodes ! i)) (nodes ! i) t")
       (auto simp: launch_piece_eq logf_def emit_def split: option.splits)
qed

lemma launch_piece_first:
  "\<exists>evs. trace (launch_piece x c nodes i t) = trace t @ evs \<and>
         KubeGetProvisioner (ObjectKeyFromObject (node_Provisioner (nodes ! i))) \<in> set evs"
proof -
  obtain r t' where l: "launch x (launch_ctx c (nodes ! i)) (nodes ! i) t = (r, t')"
    by (cases "launch x (launch_ctx c (nodes ! i)) (nodes ! i) t")
  obtain evs where "trace t' =
      trace t @ KubeGetProvisioner (ObjectKeyFromObject (node_Provisioner (nodes ! i))) # evs"
    using launch_trace [of x "launch_ctx c (nodes ! i)" "nodes ! i" t] l by auto
  with l show ?thesis
    by (cases r) (simp_all add: launch_piece_eq logf_def emit_def)
qed

lemma multierr_Combine_pair_None:
  "multierr_Combine [a, b] = None \<longleftrightarrow> a = None \<and> b = None"
  by (cases a; cases b) (simp_all add: multierr_Combine_def List.map_filter_simps)

text \<open>The loop of \<open>getPods\<close> appends the batchable pods of the listing.\<close>

lemma getPods_loop_batchable:
  "fst (getPods_loop x c items pods s) = pods @ batchable x items (pvc_answers x items (world s))"
proof (induction items arbitrary: pods s)
  case Nil
  then show ?case by (simp add: batchable_def)
next
  case (Cons pod items)
  obtain e2 w' where v: "validatePersistentVolumeClaims x pod (world s) = (e2, w')"
    by (cases "validatePersistentVolumeClaims x pod (world s)")
  show ?case
  proof (cases "multierr_Combine [validate x pod, e2]")
    case None
    then have ok: "validate x pod = None" "e2 = None"
      by (simp_all add: multierr_Combine_pair_None)
    with v None show ?thesis
      by (simp add: call_def Cons.IH batchable_def)
  next
    case (Some errs)
    then have "\<not> (validate x pod = None \<and> e2 = None)"
      using multierr_Combine_pair_None [of "validate x pod" e2] by simp
    with v Some show ?thesis
      by (auto simp add: call_def Cons.IH batchable_def logf_def emit_def)
  qed
qed

lemma getPods_loop_trace:
  "\<exists>evs. trace (snd (getPods_loop x c items pods t)) = trace t @ evs"
proof (induction items arbitrary: pods t)
  case Nil
  then show ?case by simp
next
  case (Cons pod items)
  obtain e2 w' where v: "validatePersistentVolumeClaims x pod (world t) = (e2, w')"
    by (cases "validatePersistentVolumeClaims x pod (world t)")
  define t1 where "t1 = \<lparr>world = w', trace = trace t @ [ValidatePersistentVolumeClaims pod]\<rparr>"
  have step: "\<exists>evs. trace (snd (getPods_loop x c items pods' t')) = trace t @ evs"
    if "\<exists>evs1. trace t' = trace t @ evs1" for pods' t'
  proof -
    from that obtain evs1 where "trace t' = trace t @ evs1" by blast
    moreover obtain evs2 where "trace (snd (getPods_loop x c items pods' t')) = trace t' @ evs2"
      using Cons.IH by blast
    ultimately show ?thesis by simp
  qed
  show ?case
  proof (cases "multierr_Combine [validate x pod, e2]")
    case None
    have "\<exists>evs1. trace t1 = trace t @ evs1" by (simp add: t1_def)
    from step [OF this] v None show ?thesis
      by (simp add: call_def t1_def)
  next
    case (Some errs)
    have "\<exists>evs1. trace (logf (c\<lparr>ctx_logger := ctx_logger c @
              [(''pod'', pod_Namespace pod @ ''/'' @ pod_Name pod)]\<rparr>)
            Debug ''Unable to batch pod, %s'' [AErr errs] t1) = trace t @ evs1"
      by (simp add: t1_def logf_def emit_def)
    from step [OF this] v Some show ?thesis
      by (simp add: call_def t1_def)
  qed
qed

lemma daemons_loop_daemonsFor:
  "daemons_loop x provisioner daemonSets daemons = daemons @ daemonsFor x provisioner daemonSets"
  by (induction daemonSets arbitrary: daemons) (simp_all add: Let_def daemonsFor_def)

lemma overhead_loop_notin:
  "p \<notin> set provisioners \<Longrightarrow> overhead_loop x daemonSets provisioners overhead p = overhead p"
  by (induction provisioners arbitrary: overhead) auto

lemma overhead_loop_in:
  "p \<in> set provisioners \<Longrightarrow>
   overhead_loop x daemonSets provisioners overhead p =
     Some (resources_RequestsForPods x (daemons_loop x p daemonSets []))"
proof (induction provisioners arbitrary: overhead)
  case Nil
  then show ?case by simp
next
  case (Cons q provisioners)
  show ?case
  proof (cases "p \<in> set provisioners")
    case True
    then show ?thesis by (simp add: Cons.IH)
  next
    case False
    with Cons.prems have "p = q" by simp
    with False show ?thesis by (simp add: overhead_loop_notin)
  qed
qed

text \<open>The driver returns only from a state in which the context is cancelled.\<close>

lemma loop_stops_only_cancelled:
  assumes "NewProvisioner_loop x running s = Some t"
  shows "\<exists>s0. ctx_Err x (world s0) \<and> t = logf running Info ''Stopped provisioner'' [] s0"
proof (rule NewProvisioner_loop.raw_induct [where xa = "((x, running), s)" and y = t
      and P = "\<lambda>x running s t. \<exists>s0. ctx_Err x (world s0) \<and>
                 t = logf running Info ''Stopped provisioner'' [] s0",
      unfolded prod.case])
  show "NewProvisioner_loop x running s = Some t" by (rule assms)
next
  fix f :: "'a ext \<Rightarrow> ctx \<Rightarrow> 'a state \<Rightarrow> 'a state option" and x running s t
  assume IH: "\<And>x running s t. f x running s = Some t \<Longrightarrow>
     \<exists>s0. ctx_Err x (world s0) \<and> t = logf running Info ''Stopped provisioner'' [] s0"
  assume body: "(if ctx_Err x (world s)
      then Some (logf running Info ''Stopped provisioner'' [] s)
      else (case provision x running s of
              (None, s1) \<Rightarrow> f x running s1
            | (Some e, s1) \<Rightarrow>
                f x running (logf running Error ''Provisioning failed, %s'' [AErr e] s1))) = Some t"
  show "\<exists>s0. ctx_Err x (world s0) \<and> t = logf running Info ''Stopped provisioner'' [] s0"
  proof (cases "ctx_Err x (world s)")
    case True
    with body show ?thesis by auto
  next
    case False
    obtain r s1 where p: "provision x running s = (r, s1)"
      by (cases "provision x running s")
    show ?thesis
    proof (cases r)
      case None
      with body False p have "f x running s1 = Some t" by simp
      then show ?thesis by (rule IH)
    next
      case (Some e)
      with body False p have
        "f x running (logf running Error ''Provisioning failed, %s'' [AErr e] s1) = Some t" by simp
      then show ?thesis by (rule IH)
    qed
  qed
qed

section \<open>The claims\<close>

subsection \<open>C1: limits exceeded\<close>

text \<open>
  C1. \<open>launch\<close> begins by reading the provisioner of the node from the cluster store.
  When the usage of the provisioner just read exceeds its limits, \<open>launch\<close> ends with the
  error of \<open>ExceededBy\<close>: the read is the only call it has made, so the cloud provider
  was not asked to create anything, no node object was registered and no pod was bound.
  The check is made on the object read from the store, whatever the copy of the
  provisioner inside the synthetic node says; when the read fails \<open>launch\<close> ends as well,
  without falling back on that copy.
\<close>

theorem launch_limits_exceeded:
  "(kubeClient_Get_Provisioner x (ObjectKeyFromObject (node_Provisioner node)) (world s) =
      (Inr latest, w1) \<and>
    Limits_ExceededBy x (prov_Limits latest) (prov_Status_Resources latest) = Some e \<longrightarrow>
      launch x c node s =
        (Some e, \<lparr>world = w1,
                  trace = trace s @ [KubeGetProvisioner (ObjectKeyFromObject (node_Provisioner node))]\<rparr>) \<and>
      CloudCreate (newNodeRequest node) \<notin>
        set (drop (length (trace s)) (trace (snd (launch x c node s))))) \<and>
   (kubeClient_Get_Provisioner x (ObjectKeyFromObject (node_Provisioner node)) (world s) =
      (Inl e', w1') \<longrightarrow>
      launch x c node s =
        (Some (Errorf ''getting current resource usage, %w'' [] (Some e')),
         \<lparr>world = w1',
          trace = trace s @ [KubeGetProvisioner (ObjectKeyFromObject (node_Provisioner node))]\<rparr>)) \<and>
   (\<exists>evs. trace (snd (launch x c node s)) =
      trace s @ KubeGetProvisioner (ObjectKeyFromObject (node_Provisioner node)) # evs)"
proof (intro conjI impI)
  assume h: "kubeClient_Get_Provisioner x (ObjectKeyFromObject (node_Provisioner node)) (world s) =
      (Inr latest, w1) \<and>
    Limits_ExceededBy x (prov_Limits latest) (prov_Status_Resources latest) = Some e"
  then show l: "launch x c node s =
        (Some e, \<lparr>world = w1,
                  trace = trace s @ [KubeGetProvisioner (ObjectKeyFromObject (node_Provisioner node))]\<rparr>)"
    by (simp add: launch_def call_def)
  show "CloudCreate (newNodeRequest node) \<notin>
        set (drop (length (trace s)) (trace (snd (launch x c node s))))"
    by (simp add: l)
next
  assume "kubeClient_Get_Provisioner x (ObjectKeyFromObject (node_Provisioner node)) (world s) =
      (Inl e', w1')"
  then show "launch x c node s =
        (Some (Errorf ''getting current resource usage, %w'' [] (Some e')),
         \<lparr>world = w1',
          trace = trace s @ [KubeGetProvisioner (ObjectKeyFromObject (node_Provisioner node))]\<rparr>)"
    by (simp add: launch_def call_def)
next
  show "\<exists>evs. trace (snd (launch x c node s)) =
      trace s @ KubeGetProvisioner (ObjectKeyFromObject (node_Provisioner node)) # evs"
    by (rule launch_trace)
qed

theorem launch_limits_exceeded_witness:
  "launch ext_exceeded ctx0 nodeA s0 =
     (Some (ErrorNew ''cpu resource usage exceeds limit''),
      \<lparr>world = 1, trace = [KubeGetProvisioner ('''', ''default'')]\<rparr>) \<and>
   Limits_ExceededBy ext_exceeded (prov_Limits (node_Provisioner nodeA))
     (prov_Status_Resources (node_Provisioner nodeA)) = None"
  using launch_limits_exceeded
    [where x = ext_exceeded and node = nodeA and s = s0 and c = ctx0 and ?w1.0 = 1
       and latest = "provA\<lparr>prov_Status_Resources := [''cpu'' \<mapsto> 12]\<rparr>"
       and e = "ErrorNew ''cpu resource usage exceeds limit''"]
  by (simp add: cluster_defs ObjectKeyFromObject_def index_ResourceList_def)

subsection \<open>C2: idempotent registration\<close>

text \<open>
  C2. Let the cloud provider have created the machine and the merge have succeeded, and
  let the registration of the node object with the cluster store fail with the error \<open>e\<close>.
  When \<open>e\<close> is an AlreadyExists error (\<open>errors.IsAlreadyExists\<close>: the first status error
  that \<open>errors.As\<close> finds in \<open>e\<close>, through wrapped and combined errors, has the reason
  AlreadyExists), \<open>launch\<close> logs it at debug level, goes on to
  \<open>bind\<close> with the pods of the node and returns nil. For any other error \<open>launch\<close> returns
  the error and stops in the state that follows the registration, so \<open>bind\<close> is never
  reached.
\<close>

theorem launch_registration_idempotent:
  assumes get: "kubeClient_Get_Provisioner x (ObjectKeyFromObject (node_Provisioner node)) (world s) =
                  (Inr latest, w1)"
      and lim: "Limits_ExceededBy x (prov_Limits latest) (prov_Status_Resources latest) = None"
      and create: "cloudProvider_Create x (newNodeRequest node) w1 = (Inr created, w2)"
      and merge: "mergo_Merge x created (Spec_ToNode x (node_Provisioner node)) = Inr k8sNode"
      and reg: "Nodes_Create x k8sNode w2 = (Some e, w3)"
      and s3: "s3 = \<lparr>world = w3, trace = trace s @
                 [KubeGetProvisioner (ObjectKeyFromObject (node_Provisioner node)),
                  CloudCreate (newNodeRequest node), NodesCreate k8sNode]\<rparr>"
  shows "(IsAlreadyExists e \<longrightarrow>
            launch x c node s =
              (None, snd (bind x c k8sNode (node_Pods node)
                       (logf c Info ''Created %s'' [ANode node]
                          (logf c Debug ''node %s already registered'' [AStr (k8s_Name k8sNode)] s3))))) \<and>
         (\<not> IsAlreadyExists e \<longrightarrow>
            launch x c node s =
              (Some (Errorf ''creating node %s, %w'' [k8s_Name k8sNode] (Some e)), s3))"
  using launch_registered [OF get lim create merge reg s3, of c] by simp

theorem launch_registration_idempotent_witness:
  "launch ext_exists ctx0 nodeA s0 =
     (None,
      \<lparr>world = 1,
       trace = [KubeGetProvisioner ('''', ''default''),
                CloudCreate (newNodeRequest nodeA),
                NodesCreate machineA,
                Logf Debug [] ''node %s already registered'' [AStr ''ip-10-0-0-1''],
                Logf Info [] ''Created %s'' [ANode nodeA],
                PodsBind ''default'' (newBinding podA machineA),
                Observe ''bind_duration_seconds'' '''']\<rparr>) \<and>
   IsAlreadyExists (Multierr [ErrorNew ''webhook timeout'',
                              StatusError StatusReasonAlreadyExists ''nodes already exists'']) \<and>
   launch ext_exists_combined ctx0 nodeA s0 =
     (None,
      \<lparr>world = 1,
       trace = [KubeGetProvisioner ('''', ''default''),
                CloudCreate (newNodeRequest nodeA),
                NodesCreate machineA,
                Logf Debug [] ''node %s already registered'' [AStr ''ip-10-0-0-1''],
                Logf Info [] ''Created %s'' [ANode nodeA],
                PodsBind ''default'' (newBinding podA machineA),
                Observe ''bind_duration_seconds'' '''']\<rparr>) \<and>
   \<not> IsAlreadyExists (StatusError (StatusReasonOther ''Forbidden'') ''nodes is forbidden'') \<and>
   launch ext_forbidden ctx0 nodeA s0 =
     (Some (Errorf ''creating node %s, %w'' [''ip-10-0-0-1'']
              (Some (StatusError (StatusReasonOther ''Forbidden'') ''nodes is forbidden''))),
      \<lparr>world = 1,
       trace = [KubeGetProvisioner ('''', ''default''),
                CloudCreate (newNodeRequest nodeA),
                NodesCreate machineA]\<rparr>)"
proof -
  have get: "kubeClient_Get_Provisioner x (ObjectKeyFromObject (node_Provisioner nodeA))
               (world s0) = (Inr provA, 1)"
    and lim: "Limits_ExceededBy x (prov_Limits provA) (prov_Status_Resources provA) = None"
    and create: "cloudProvider_Create x (newNodeRequest nodeA) 1 = (Inr machineA, 1)"
    and merge: "mergo_Merge x machineA (Spec_ToNode x (node_Provisioner nodeA)) = Inr machineA"
    if "x \<in> {ext_exists, ext_exists_combined, ext_forbidden}" for x
    using that by (auto simp: cluster_defs index_ResourceList_def)
  have reg1: "Nodes_Create ext_exists machineA 1 =
               (Some (StatusError StatusReasonAlreadyExists ''nodes already exists''), 1)"
    and reg2: "Nodes_Create ext_exists_combined machineA 1 =
               (Some (Multierr [ErrorNew ''webhook timeout'',
                                StatusError StatusReasonAlreadyExists ''nodes already exists'']), 1)"
    and reg3: "Nodes_Create ext_forbidden machineA 1 =
               (Some (StatusError (StatusReasonOther ''Forbidden'') ''nodes is forbidden''), 1)"
    by (simp_all add: cluster_defs)
  have b: "snd (bind x ctx0 machineA (node_Pods nodeA)
              (logf ctx0 Info ''Created %s'' [ANode nodeA]
                 (logf ctx0 Debug ''node %s already registered'' [AStr (k8s_Name machineA)]
                    \<lparr>world = 1, trace = trace s0 @
                       [KubeGetProvisioner (ObjectKeyFromObject (node_Provisioner nodeA)),
                        CloudCreate (newNodeRequest nodeA), NodesCreate machineA]\<rparr>))) =
           \<lparr>world = 1,
            trace = [KubeGetProvisioner ('''', ''default''),
                     CloudCreate (newNodeRequest nodeA),
                     NodesCreate machineA,
                     Logf Debug [] ''node %s already registered'' [AStr ''ip-10-0-0-1''],
                     Logf Info [] ''Created %s'' [ANode nodeA],
                     PodsBind ''default'' (newBinding podA machineA),
                     Observe ''bind_duration_seconds'' '''']\<rparr>"
    if "x \<in> {ext_exists, ext_exists_combined}" for x
    using that
    by (auto simp: cluster_defs bind_def bind_piece_def ctx_Done_def logf_def emit_def call_def
          Let_def ObjectKeyFromObject_def notReadyTolerations_def ParallelizeUntil_def
          pool_steps_def pool_start_def pool_step_def upt_rec)
  have y: "IsAlreadyExists (Multierr [ErrorNew ''webhook timeout'',
                              StatusError StatusReasonAlreadyExists ''nodes already exists''])"
    and n: "\<not> IsAlreadyExists (StatusError (StatusReasonOther ''Forbidden'') ''nodes is forbidden'')"
    and y1: "IsAlreadyExists (StatusError StatusReasonAlreadyExists ''nodes already exists'')"
    by (simp_all add: IsAlreadyExists_def)
  have k: "k8s_Name machineA = ''ip-10-0-0-1''" and t: "trace s0 = []"
    by (simp_all add: cluster_defs)
  show ?thesis
    using launch_registration_idempotent [OF get lim create merge reg1 refl, of ctx0]
      launch_registration_idempotent [OF get lim create merge reg2 refl, of ctx0]
      launch_registration_idempotent [OF get lim create merge reg3 refl, of ctx0]
      b [of ext_exists] b [of ext_exists_combined] y n y1
    by (simp add: k t ObjectKeyFromObject_def nodeA_def provA_def)
qed

subsection \<open>C3: binding the pods of a node\<close>

text \<open>
  C3, as amended. \<open>bind\<close> hands the pods of the node to \<open>ParallelizeUntil\<close>, one piece for each
  pod and as many workers as pieces. Whatever the order in which the workers take up and work
  the pieces, every piece is taken up once, and it is worked, once, exactly when the context is
  not cancelled at the moment it is taken up. \<open>bind\<close> returns in the state that the worked
  pieces leave, one after the other, followed by the measure of its duration. The piece of a
  pod does this: when the taints of the node are not tolerated by the pod together with the two
  tolerations for the not-ready taints, it emits \<open>PodShouldSchedule\<close> for the pod and the node
  and does nothing else, so that no binding is created for the pod; otherwise it creates a
  binding of the pod whose target is the node, and logs the error if the store refuses it.
  Between the start of \<open>bind\<close> and the measure, the trace grows by events of worked pieces only:
  a pod whose piece is taken up after the context is cancelled gets neither a binding nor an
  event, and the event or the binding of a pod whose piece is worked is in the trace when
  \<open>bind\<close> returns.
\<close>

theorem bind_pod_dispatch:
  assumes i: "i < length pods"
  shows "\<exists>pre rest evs.
           bind_steps x pods s = pre @ Select i # rest \<and> Select i \<notin> set pre \<and>
           (i \<in> set (bind_worked x c node pods s) \<longleftrightarrow>
              \<not> ctx_Err x (world (pool_state (bind_pool_after x c node pods pre s)))) \<and>
           distinct (bind_worked x c node pods s) \<and>
           snd (bind x c node pods s) =
             emit (Observe ''bind_duration_seconds'' (snd (ctx_NamespacedName c)))
               (foldl (\<lambda>t j. bind_piece x c node pods j t) s (bind_worked x c node pods s)) \<and>
           (\<forall>t. (Taints_Tolerates x (k8s_Taints node) (pods ! i) notReadyTolerations \<noteq> None \<longrightarrow>
                   bind_piece x c node pods i t = emit (PodShouldSchedule (pods ! i) node) t) \<and>
                (Taints_Tolerates x (k8s_Taints node) (pods ! i) notReadyTolerations = None \<longrightarrow>
                   trace (bind_piece x c node pods i t) =
                     trace t @
                     PodsBind (pod_Namespace (pods ! i)) (newBinding (pods ! i) node) #
                     (case fst (Pods_Bind x (pod_Namespace (pods ! i)) (newBinding (pods ! i) node)
                                  (world t)) of
                        None \<Rightarrow> []
                      | Some e \<Rightarrow>
                          [Logf Error (ctx_logger c) ''Failed to bind %s/%s to %s, %s''
                             [AStr (pod_Namespace (pods ! i)), AStr (pod_Name (pods ! i)),
                              AStr (k8s_Name node), AErr e]]) \<and>
                   bind_Target (newBinding (pods ! i) node) = k8s_Name node)) \<and>
           trace (snd (bind x c node pods s)) =
             trace s @ evs @ [Observe ''bind_duration_seconds'' (snd (ctx_NamespacedName c))] \<and>
           (\<forall>ev \<in> set evs. \<exists>j \<in> set (bind_worked x c node pods s). bind_piece_event x node pods j ev) \<and>
           (i \<in> set (bind_worked x c node pods s) \<longrightarrow>
              (if Taints_Tolerates x (k8s_Taints node) (pods ! i) notReadyTolerations \<noteq> None
               then PodShouldSchedule (pods ! i) node \<in> set evs
               else PodsBind (pod_Namespace (pods ! i)) (newBinding (pods ! i) node) \<in> set evs))"
proof -
  let ?f = "bind_piece x c node pods"
  let ?w = "bind_worked x c node pods s"
  let ?ev = "if Taints_Tolerates x (k8s_Taints node) (pods ! i) notReadyTolerations \<noteq> None
             then PodShouldSchedule (pods ! i) node
             else PodsBind (pod_Namespace (pods ! i)) (newBinding (pods ! i) node)"
  from i have "Select i \<in> set (bind_steps x pods s)"
    unfolding bind_steps_def by (rule pool_steps_Select)
  then obtain pre rest where
    split: "bind_steps x pods s = pre @ Select i # rest" "Select i \<notin> set pre"
    by (auto dest: split_list_first)
  have iff: "i \<in> set ?w \<longleftrightarrow>
             \<not> ctx_Err x (world (pool_state (bind_pool_after x c node pods pre s)))"
    using pool_worked_iff [OF i split [unfolded bind_steps_def],
        of "ctx_Done x" "bind_piece x c node pods" s]
    by (simp add: bind_worked_def bind_pool_after_def bind_steps_def ctx_Done_def)
  have dist: "distinct ?w"
    unfolding bind_worked_def bind_pool_after_def
    by (rule pool_run_distinct) (simp add: pool_start_def)
  obtain evs where evs: "trace (foldl (\<lambda>t j. ?f j t) s ?w) = trace s @ evs"
      "\<forall>ev \<in> set evs. \<exists>j \<in> set ?w. bind_piece_event x node pods j ev"
    using foldl_events [where f = ?f and Q = "bind_piece_event x node pods", OF bind_piece_events]
    by blast
  have piece: "\<And>t. \<exists>es. trace (?f i t) = trace t @ es \<and> ?ev \<in> set es"
    by (auto simp: bind_piece_def Let_def emit_def logf_def call_def
        split: prod.splits option.splits)
  have mem: "?ev \<in> set evs" if "i \<in> set ?w"
  proof -
    have "\<exists>es. trace (foldl (\<lambda>t j. ?f j t) s ?w) = trace s @ es \<and> ?ev \<in> set es"
      by (rule foldl_member [where i = i]) (rule bind_piece_trace, rule piece, rule that)
    then obtain es where "trace (foldl (\<lambda>t j. ?f j t) s ?w) = trace s @ es" "?ev \<in> set es"
      by blast
    with evs(1) show ?thesis by simp
  qed
  have dich: "\<forall>t. (Taints_Tolerates x (k8s_Taints node) (pods ! i) notReadyTolerations \<noteq> None \<longrightarrow>
                   bind_piece x c node pods i t = emit (PodShouldSchedule (pods ! i) node) t) \<and>
                (Taints_Tolerates x (k8s_Taints node) (pods ! i) notReadyTolerations = None \<longrightarrow>
                   trace (bind_piece x c node pods i t) =
                     trace t @
                     PodsBind (pod_Namespace (pods ! i)) (newBinding (pods ! i) node) #
                     (case fst (Pods_Bind x (pod_Namespace (pods ! i)) (newBinding (pods ! i) node)
                                  (world t)) of
                        None \<Rightarrow> []
                      | Some e \<Rightarrow>
                          [Logf Error (ctx_logger c) ''Failed to bind %s/%s to %s, %s''
                             [AStr (pod_Namespace (pods ! i)), AStr (pod_Name (pods ! i)),
                              AStr (k8s_Name node), AErr e]]) \<and>
                   bind_Target (newBinding (pods ! i) node) = k8s_Name node)"
    by (simp add: bind_piece_def Let_def emit_def logf_def call_def newBinding_def
        split: prod.splits option.splits)
  have tr: "trace (snd (bind x c node pods s)) =
              trace s @ evs @ [Observe ''bind_duration_seconds'' (snd (ctx_NamespacedName c))]"
    by (simp add: bind_foldl emit_def evs(1))
  have mem': "i \<in> set ?w \<longrightarrow>
              (if Taints_Tolerates x (k8s_Taints node) (pods ! i) notReadyTolerations \<noteq> None
               then PodShouldSchedule (pods ! i) node \<in> set evs
               else PodsBind (pod_Namespace (pods ! i)) (newBinding (pods ! i) node) \<in> set evs)"
    using mem by (auto split: if_splits)
  show ?thesis
    by (rule exI [of _ pre], rule exI [of _ rest], rule exI [of _ evs], intro conjI)
      (rule split iff dist bind_foldl dich tr evs(2) mem')+
qed

theorem bind_pod_dispatch_witness:
  "trace (snd (bind ext0 ctx0 machineT [podA] s0)) =
     [PodShouldSchedule podA machineT, Observe ''bind_duration_seconds''  ''''] \<and>
   bind_worked ext_bind_cancel ctx0 machineN [podA, podB] s0 = [0] \<and>
   trace (snd (bind ext_bind_cancel ctx0 machineN [podA, podB] s0)) =
     [PodsBind ''default'' (newBinding podA machineN), Observe ''bind_duration_seconds''  ''''] \<and>
   bind_Target (newBinding podA machineN) = ''ip-10-0-0-3'' \<and>
   bind_worked ext_bind_cancel_late ctx0 machineN [podA, podB] s0 = [0, 1] \<and>
   trace (snd (bind ext_bind_cancel_late ctx0 machineN [podA, podB] s0)) =
     [PodsBind ''default'' (newBinding podA machineN),
      PodsBind ''default'' (newBinding podB machineN), Observe ''bind_duration_seconds''  '''']"
proof -
  have i: "0 < length [podA]" and j: "1 < length [podA, podB]" by simp_all
  from bind_pod_dispatch [OF i, of ext0 s0 ctx0 machineT]
       bind_pod_dispatch [OF j, of ext_bind_cancel s0 ctx0 machineN]
       bind_pod_dispatch [OF j, of ext_bind_cancel_late s0 ctx0 machineN]
  show ?thesis
    by (simp add: cluster_defs run_defs upt_rec notReadyTolerations_def
          NotReadyTaintKey_def TaintNodeNotReady_def newBinding_def pool_run.simps)
qed

text \<open>
  The claim as it is written fails once the context is cancelled: \<open>bind\<close> then makes no
  binding for a pod that tolerates the taints of the node, and emits no event for a pod that
  does not.
\<close>

theorem bind_cancelled_counterexample:
  "Taints_Tolerates ext_stopped (k8s_Taints machineN) podA notReadyTolerations = None \<and>
   trace (snd (bind ext_stopped ctx0 machineN [podA] s0)) =
     [Observe ''bind_duration_seconds'' ''''] \<and>
   Taints_Tolerates ext_stopped (k8s_Taints machineT) podA notReadyTolerations \<noteq> None \<and>
   trace (snd (bind ext_stopped ctx0 machineT [podA] s0)) =
     [Observe ''bind_duration_seconds'' '''']"
  by (simp add: cluster_defs run_defs upt_rec notReadyTolerations_def
        NotReadyTaintKey_def TaintNodeNotReady_def)

subsection \<open>C4: the launches of a pass\<close>

text \<open>
  C4. Let a pass have batched pods and \<open>schedule\<close> have returned nodes. The pass hands the
  nodes to \<open>ParallelizeUntil\<close>, one piece for each node and as many workers as pieces, and
  returns nil, in the state that the worked pieces leave, one after the other, followed by the
  broadcast. The piece of a node runs \<open>launch\<close> on the node: \<open>launch\<close> reads the provisioner of
  the node first, and an error that it returns, at whatever step, is logged and nothing more.
  So a launch that fails aborts neither the pass nor a sibling: whatever the order in which
  the workers take up and work the pieces, and whatever the other launches do, every piece is
  taken up once, and the launch of its node is attempted, once, exactly when the context of the
  pass is not cancelled at the moment the piece is taken up. Cancelling the context of the pass
  is the one thing that \<open>ParallelizeUntil\<close> looks at; in a pass whose context is never cancelled
  every node that \<open>schedule\<close> returned has its launch attempted.
\<close>

theorem provision_launches_independent:
  assumes wait: "call BatcherWait (batcher_Wait x)
                   (logf c Info ''Waiting for unschedulable pods'' [] s) = (window, s1)"
      and pods: "getPods x c s1 = (Inr pods, s2)"
      and nonempty: "pods \<noteq> []"
      and nodes: "schedule x c pods
                    (logf c Info ''Batched %d pod(s) in %s'' [ANat (length pods), ANat window] s2) =
                  (Inr nodes, s3)"
      and i: "i < length nodes"
  shows "\<exists>pre rest evs.
           launch_steps x nodes s3 = pre @ Select i # rest \<and> Select i \<notin> set pre \<and>
           (i \<in> set (launch_worked x c nodes s3) \<longleftrightarrow>
              \<not> ctx_Err x (world (pool_state (launch_pool_after x c nodes pre s3)))) \<and>
           ((\<forall>w. \<not> ctx_Err x w) \<longrightarrow> i \<in> set (launch_worked x c nodes s3)) \<and>
           distinct (launch_worked x c nodes s3) \<and>
           provision x c s =
             (None, emit CondBroadcast
                      (foldl (\<lambda>t j. launch_piece x c nodes j t) s3 (launch_worked x c nodes s3))) \<and>
           (\<forall>t. \<exists>r t'.
                  launch x (launch_ctx c (nodes ! i)) (nodes ! i) t = (r, t') \<and>
                  (\<exists>es. trace t' =
                          trace t @
                          KubeGetProvisioner (ObjectKeyFromObject (node_Provisioner (nodes ! i))) # es) \<and>
                  launch_piece x c nodes i t =
                    (case r of
                       None \<Rightarrow> t'
                     | Some e \<Rightarrow>
                         logf (launch_ctx c (nodes ! i)) Error ''Launching node, %s'' [AErr e] t')) \<and>
           trace (snd (provision x c s)) = trace s3 @ evs @ [CondBroadcast] \<and>
           (i \<in> set (launch_worked x c nodes s3) \<longrightarrow>
              KubeGetProvisioner (ObjectKeyFromObject (node_Provisioner (nodes ! i))) \<in> set evs)"
proof -
  let ?f = "launch_piece x c nodes"
  let ?w = "launch_worked x c nodes s3"
  from i have "Select i \<in> set (launch_steps x nodes s3)"
    unfolding launch_steps_def by (rule pool_steps_Select)
  then obtain pre rest where
    split: "launch_steps x nodes s3 = pre @ Select i # rest" "Select i \<notin> set pre"
    by (auto dest: split_list_first)
  have iff: "i \<in> set ?w \<longleftrightarrow>
             \<not> ctx_Err x (world (pool_state (launch_pool_after x c nodes pre s3)))"
    using pool_worked_iff [OF i split [unfolded launch_steps_def],
        of "ctx_Done x" "launch_piece x c nodes" s3]
    by (simp add: launch_worked_def launch_pool_after_def launch_steps_def ctx_Done_def)
  from iff have live: "(\<forall>w. \<not> ctx_Err x w) \<longrightarrow> i \<in> set ?w" by simp
  have dist: "distinct ?w"
    unfolding launch_worked_def launch_pool_after_def
    by (rule pool_run_distinct) (simp add: pool_start_def)
  from wait pods nonempty nodes
  have prov: "provision x c s = (None, emit CondBroadcast (foldl (\<lambda>t j. ?f j t) s3 ?w))"
    by (simp add: provision_def provision_body_def ParallelizeUntil_foldl launch_worked_def
        launch_pool_after_def launch_steps_def)
  have piece: "\<forall>t. \<exists>r t'.
                  launch x (launch_ctx c (nodes ! i)) (nodes ! i) t = (r, t') \<and>
                  (\<exists>es. trace t' =
                          trace t @
                          KubeGetProvisioner (ObjectKeyFromObject (node_Provisioner (nodes ! i))) # es) \<and>
                  launch_piece x c nodes i t =
                    (case r of
                       None \<Rightarrow> t'
                     | Some e \<Rightarrow>
                         logf (launch_ctx c (nodes ! i)) Error ''Launching node, %s'' [AErr e] t')"
  proof
    fix t
    obtain r t' where l: "launch x (launch_ctx c (nodes ! i)) (nodes ! i) t = (r, t')"
      by (cases "launch x (launch_ctx c (nodes ! i)) (nodes ! i) t")
    have "\<exists>es. trace t' =
            trace t @ KubeGetProvisioner (ObjectKeyFromObject (node_Provisioner (nodes ! i))) # es"
      using launch_trace [of x "launch_ctx c (nodes ! i)" "nodes ! i" t] l by simp
    moreover from l have "launch_piece x c nodes i t =
        (case r of
           None \<Rightarrow> t'
         | Some e \<Rightarrow> logf (launch_ctx c (nodes ! i)) Error ''Launching node, %s'' [AErr e] t')"
      by (simp add: launch_piece_eq)
    ultimately show "\<exists>r t'.
                  launch x (launch_ctx c (nodes ! i)) (nodes ! i) t = (r, t') \<and>
                  (\<exists>es. trace t' =
                          trace t @
                          KubeGetProvisioner (ObjectKeyFromObject (node_Provisioner (nodes ! i))) # es) \<and>
                  launch_piece x c nodes i t =
                    (case r of
                       None \<Rightarrow> t'
                     | Some e \<Rightarrow>
                         logf (launch_ctx c (nodes ! i)) Error ''Launching node, %s'' [AErr e] t')"
      using l by blast
  qed
  obtain evs where evs: "trace (foldl (\<lambda>t j. ?f j t) s3 ?w) = trace s3 @ evs"
    using foldl_events [where f = ?f and Q = "\<lambda>j ev. True" and s = s3 and js = ?w]
      launch_piece_trace [of x c nodes] by auto
  have tr: "trace (snd (provision x c s)) = trace s3 @ evs @ [CondBroadcast]"
    by (simp add: prov emit_def evs)
  have mem: "i \<in> set ?w \<longrightarrow>
             KubeGetProvisioner (ObjectKeyFromObject (node_Provisioner (nodes ! i))) \<in> set evs"
  proof
    assume w: "i \<in> set ?w"
    have "\<exists>es. trace (foldl (\<lambda>t j. ?f j t) s3 ?w) = trace s3 @ es \<and>
               KubeGetProvisioner (ObjectKeyFromObject (node_Provisioner (nodes ! i))) \<in> set es"
      by (rule foldl_member [where i = i]) (rule launch_piece_trace, rule launch_piece_first, rule w)
    with evs show "KubeGetProvisioner (ObjectKeyFromObject (node_Provisioner (nodes ! i))) \<in> set evs"
      by auto
  qed
  show ?thesis
    by (rule exI [of _ pre], rule exI [of _ rest], rule exI [of _ evs], intro conjI)
      (rule split iff live dist prov piece tr mem)+
qed

theorem provision_launches_independent_witness:
  "fst (provision ext_first_fails ctx0 s0) = None \<and>
   Logf Error [(''provisioner'', ''default'')] ''Launching node, %s''
     [AErr (Errorf ''getting current resource usage, %w'' []
        (Some (StatusError StatusReasonNotFound ''not found'')))]
     \<in> set (trace (snd (provision ext_first_fails ctx0 s0))) \<and>
   KubeGetProvisioner ('''', ''batch'') \<in> set (trace (snd (provision ext_first_fails ctx0 s0))) \<and>
   CloudCreate (newNodeRequest nodeB) \<in> set (trace (snd (provision ext_first_fails ctx0 s0)))"
proof -
  define t0 where "t0 = logf ctx0 Info ''Waiting for unschedulable pods'' [] s0"
  define s1 where "s1 = snd (call BatcherWait (batcher_Wait ext_first_fails) t0)"
  define s2 where "s2 = snd (getPods ext_first_fails ctx0 s1)"
  define t2 where "t2 = logf ctx0 Info ''Batched %d pod(s) in %s''
                           [ANat (length [podA, podB]), ANat 1] s2"
  define s3 where "s3 = snd (schedule ext_first_fails ctx0 [podA, podB] t2)"
  have wait: "call BatcherWait (batcher_Wait ext_first_fails)
                (logf ctx0 Info ''Waiting for unschedulable pods'' [] s0) = (1, s1)"
    by (simp add: s1_def t0_def cluster_defs call_def)
  have pods: "getPods ext_first_fails ctx0 s1 = (Inr [podA, podB], s2)"
    by (simp add: s2_def s1_def t0_def cluster_defs run_defs)
  have nonempty: "[podA, podB] \<noteq> []" by simp
  have nodes: "schedule ext_first_fails ctx0 [podA, podB]
                 (logf ctx0 Info ''Batched %d pod(s) in %s'' [ANat (length [podA, podB]), ANat 1] s2) =
               (Inr [nodeA, nodeB], s3)"
    by (simp add: s3_def t2_def s2_def s1_def t0_def cluster_defs run_defs)
  have i: "1 < length [nodeA, nodeB]" by simp
  from provision_launches_independent [OF wait pods nonempty nodes i]
  show ?thesis
    by (simp add: s3_def t2_def s2_def s1_def t0_def cluster_defs run_defs upt_rec)
qed

subsection \<open>C5: the driver\<close>

text \<open>
  C5. In the loop started by \<open>NewProvisioner\<close>, a pass that returns an error is followed by
  the log of the error and by the next turn of the loop. The loop returns only from a state
  in which the context is cancelled, having logged that it stopped; it does return when it
  finds the context cancelled; and it never returns when the context is never cancelled.
\<close>

theorem NewProvisioner_loop_cancel_only:
  "(\<not> ctx_Err x (world s) \<and> provision x running s = (Some e, s1) \<longrightarrow>
      NewProvisioner_loop x running s =
      NewProvisioner_loop x running (logf running Error ''Provisioning failed, %s'' [AErr e] s1)) \<and>
   (NewProvisioner_loop x running s = Some t \<longrightarrow>
      (\<exists>s0. ctx_Err x (world s0) \<and> t = logf running Info ''Stopped provisioner'' [] s0)) \<and>
   (ctx_Err x (world s) \<longrightarrow>
      NewProvisioner_loop x running s = Some (logf running Info ''Stopped provisioner'' [] s)) \<and>
   ((\<forall>w. \<not> ctx_Err x w) \<longrightarrow> NewProvisioner_loop x running s = None)"
proof (intro conjI impI)
  assume "\<not> ctx_Err x (world s) \<and> provision x running s = (Some e, s1)"
  then show "NewProvisioner_loop x running s =
      NewProvisioner_loop x running (logf running Error ''Provisioning failed, %s'' [AErr e] s1)"
    by (subst NewProvisioner_loop.simps) simp
next
  assume "NewProvisioner_loop x running s = Some t"
  then show "\<exists>s0. ctx_Err x (world s0) \<and> t = logf running Info ''Stopped provisioner'' [] s0"
    by (rule loop_stops_only_cancelled)
next
  assume "ctx_Err x (world s)"
  then show "NewProvisioner_loop x running s = Some (logf running Info ''Stopped provisioner'' [] s)"
    by (subst NewProvisioner_loop.simps) simp
next
  assume never: "\<forall>w. \<not> ctx_Err x w"
  show "NewProvisioner_loop x running s = None"
  proof (cases "NewProvisioner_loop x running s")
    case None
    then show ?thesis .
  next
    case (Some t)
    obtain s0 where "ctx_Err x (world s0)"
      and "t = logf running Info ''Stopped provisioner'' [] s0"
      using loop_stops_only_cancelled [OF Some] by blast
    with never show ?thesis by simp
  qed
qed

theorem NewProvisioner_loop_cancel_only_witness:
  "NewProvisioner_loop ext_pass_fails ctx0 s0 =
     Some \<lparr>world = 1,
           trace = [Logf Info [] ''Waiting for unschedulable pods'' [],
                    BatcherWait,
                    KubeListPods [(''spec.nodeName'', '''')],
                    CondBroadcast,
                    Logf Error [] ''Provisioning failed, %s''
                      [AErr (Errorf ''listing pods, %w'' [] (Some (ErrorNew ''timeout'')))],
                    Logf Info [] ''Stopped provisioner'' []]\<rparr> \<and>
   NewProvisioner_loop ext0 ctx0 s0 = None"
proof -
  define s1 :: "nat state" where
    "s1 = \<lparr>world = 1,
           trace = [Logf Info [] ''Waiting for unschedulable pods'' [],
                    BatcherWait,
                    KubeListPods [(''spec.nodeName'', '''')],
                    CondBroadcast]\<rparr>"
  define e where "e = Errorf ''listing pods, %w'' [] (Some (ErrorNew ''timeout''))"
  have first: "\<not> ctx_Err ext_pass_fails (world s0) \<and>
               provision ext_pass_fails ctx0 s0 = (Some e, s1)"
    by (simp add: s1_def e_def cluster_defs run_defs)
  have stop: "ctx_Err ext_pass_fails
                (world (logf ctx0 Error ''Provisioning failed, %s'' [AErr e] s1))"
    by (simp add: s1_def cluster_defs logf_def emit_def)
  have never: "\<forall>w. \<not> ctx_Err ext0 w"
    by (simp add: ext0_def)
  from NewProvisioner_loop_cancel_only [of ext_pass_fails s0 ctx0 e s1] first
  have "NewProvisioner_loop ext_pass_fails ctx0 s0 =
        NewProvisioner_loop ext_pass_fails ctx0
          (logf ctx0 Error ''Provisioning failed, %s'' [AErr e] s1)"
    by blast
  moreover from NewProvisioner_loop_cancel_only
    [of ext_pass_fails "logf ctx0 Error ''Provisioning failed, %s'' [AErr e] s1" ctx0] stop
  have "NewProvisioner_loop ext_pass_fails ctx0
          (logf ctx0 Error ''Provisioning failed, %s'' [AErr e] s1) =
        Some (logf ctx0 Info ''Stopped provisioner'' []
          (logf ctx0 Error ''Provisioning failed, %s'' [AErr e] s1))"
    by blast
  moreover from NewProvisioner_loop_cancel_only [of ext0 s0 ctx0] never
  have "NewProvisioner_loop ext0 ctx0 s0 = None"
    by blast
  ultimately show ?thesis
    by (simp add: s1_def e_def ctx0_def logf_def emit_def)
qed

subsection \<open>C6: no provisioners\<close>

text \<open>
  C6. When the list of provisioners read at the start of \<open>schedule\<close> is empty, \<open>schedule\<close>
  returns the error \<open>no provisioners found\<close> and no node. It has made one call, the listing
  of the provisioners, before the deferred observation of its duration: neither the cloud
  provider nor \<open>Scheduler.Solve\<close> was called.
\<close>

theorem schedule_no_provisioners:
  assumes "kubeClient_List_Provisioners x (world s) = (Inr [], w1)"
  shows "schedule x c pods s =
           (Inl (Errorf ''no provisioners found'' [] None),
            \<lparr>world = w1,
             trace = trace s @ [KubeListProvisioners,
                                Observe ''scheduling_duration_seconds'' (snd (ctx_NamespacedName c))]\<rparr>)"
  using assms by (simp add: schedule_def schedule_body_def call_def emit_def)

theorem schedule_no_provisioners_witness:
  "schedule ext_no_provisioners ctx0 [podA, podB] s0 =
     (Inl (Errorf ''no provisioners found'' [] None),
      \<lparr>world = 0, trace = [KubeListProvisioners, Observe ''scheduling_duration_seconds'' '''']\<rparr>)"
  using schedule_no_provisioners [where x = ext_no_provisioners and s = s0 and ?w1.0 = 0
      and c = ctx0 and pods = "[podA, podB]"]
  by (simp add: cluster_defs)

subsection \<open>C7: daemon overhead\<close>

text \<open>
  C7. When the daemon sets can be listed, \<open>getDaemonOverhead\<close> gives every provisioner it
  was called with the requests (\<open>resources.RequestsForPods\<close>) of the pods of exactly the
  daemon sets whose pod tolerates the taints of the provisioner, with no additional
  toleration, and is compatible with its requirements. The startup taints of the
  provisioner play no part: changing them changes nothing in the pods chosen.
\<close>

theorem getDaemonOverhead_static_taints:
  assumes "kubeClient_List_DaemonSets x (world s) = (Inr daemonSets, w1)"
  shows "\<exists>overhead.
           getDaemonOverhead x c provisioners s =
             (Inr overhead, \<lparr>world = w1, trace = trace s @ [KubeListDaemonSets]\<rparr>) \<and>
           (\<forall>p \<in> set provisioners.
              overhead p = Some (resources_RequestsForPods x (daemonsFor x p daemonSets)) \<and>
              (\<forall>startup. daemonsFor x (p\<lparr>prov_StartupTaints := startup\<rparr>) daemonSets =
                          daemonsFor x p daemonSets))"
  using assms
  by (simp add: getDaemonOverhead_def call_def overhead_loop_in daemons_loop_daemonsFor
        daemonsFor_def)

theorem getDaemonOverhead_static_taints_witness:
  "\<exists>overhead.
     getDaemonOverhead ext0 ctx0 [provA, provT] s0 =
       (Inr overhead, \<lparr>world = 0, trace = [KubeListDaemonSets]\<rparr>) \<and>
     overhead provT = Some [''cpu'' \<mapsto> 3] \<and>
     overhead provA = Some [''cpu'' \<mapsto> 8]"
proof -
  have l: "kubeClient_List_DaemonSets ext0 (world s0) = (Inr [dsLogging, dsProxy], 0)"
    by (simp add: cluster_defs)
  have t: "resources_RequestsForPods ext0 (daemonsFor ext0 provT [dsLogging, dsProxy]) = [''cpu'' \<mapsto> 3]"
    by (simp add: cluster_defs daemonsFor_def daemonPod_def index_ResourceList_def)
  have a: "resources_RequestsForPods ext0 (daemonsFor ext0 provA [dsLogging, dsProxy]) = [''cpu'' \<mapsto> 8]"
    by (simp add: cluster_defs daemonsFor_def daemonPod_def index_ResourceList_def)
  from getDaemonOverhead_static_taints [OF l, of ctx0 "[provA, provT]"] t a
  show ?thesis by (auto simp: s0_def)
qed

subsection \<open>C8: the pods of a pass\<close>

text \<open>
  C8. \<open>getPods\<close> asks the cluster store for the pods whose field \<open>spec.nodeName\<close> is
  empty. When the store answers with a listing, \<open>getPods\<close> returns, without an error,
  exactly the pods of the listing that pass the pod validation, whose volume claims pass
  their validation and that are provisionable, in the order of the listing. A pod that
  fails a validation is left out; it does not end the pass.
\<close>

theorem getPods_exactly:
  assumes "kubeClient_List_Pods x [(''spec.nodeName'', '''')] (world s) = (Inr items, w1)"
  shows "\<exists>s'. getPods x c s = (Inr (batchable x items (pvc_answers x items w1)), s') \<and>
              (\<exists>evs. trace s' = trace s @ KubeListPods [(''spec.nodeName'', '''')] # evs)"
proof -
  define s1 where "s1 = \<lparr>world = w1, trace = trace s @ [KubeListPods [(''spec.nodeName'', '''')]]\<rparr>"
  obtain evs where "trace (snd (getPods_loop x c items [] s1)) = trace s1 @ evs"
    using getPods_loop_trace by blast
  with assms getPods_loop_batchable [of x c items "[]" s1] show ?thesis
    by (auto simp add: getPods_def call_def s1_def split: prod.splits)
qed

theorem getPods_exactly_witness:
  "\<exists>s'. getPods ext_invalid ctx0 s0 = (Inr [podA], s')"
proof -
  have l: "kubeClient_List_Pods ext_invalid [(''spec.nodeName'', '''')] (world s0) =
             (Inr [podA, podB], 0)"
    by (simp add: cluster_defs)
  have b: "batchable ext_invalid [podA, podB] (pvc_answers ext_invalid [podA, podB] 0) = [podA]"
    by (simp add: cluster_defs batchable_def)
  from getPods_exactly [OF l, of ctx0] b show ?thesis by auto
qed

subsection \<open>C9: bind returns nil\<close>

text \<open>
  C9. \<open>bind\<close> returns nil for every node, every list of pods and every answer of the
  cluster store to the bindings. Hence a \<open>launch\<close> that has read the provisioner within
  its limits, created the machine, merged the node and registered it, or found it
  registered already, returns nil.
\<close>

theorem bind_returns_nil:
  "fst (bind x c k8sNode pods s) = None \<and>
   (kubeClient_Get_Provisioner x (ObjectKeyFromObject (node_Provisioner node)) (world s) =
      (Inr latest, w1) \<and>
    Limits_ExceededBy x (prov_Limits latest) (prov_Status_Resources latest) = None \<and>
    cloudProvider_Create x (newNodeRequest node) w1 = (Inr created, w2) \<and>
    mergo_Merge x created (Spec_ToNode x (node_Provisioner node)) = Inr merged \<and>
    Nodes_Create x merged w2 = (r, w3) \<and>
    (case r of None \<Rightarrow> True | Some e \<Rightarrow> IsAlreadyExists e) \<longrightarrow>
    fst (launch x c node s) = None)"
proof (intro conjI impI)
  show "fst (bind x c k8sNode pods s) = None"
    by (simp add: bind_def Let_def)
next
  assume h: "kubeClient_Get_Provisioner x (ObjectKeyFromObject (node_Provisioner node)) (world s) =
      (Inr latest, w1) \<and>
    Limits_ExceededBy x (prov_Limits latest) (prov_Status_Resources latest) = None \<and>
    cloudProvider_Create x (newNodeRequest node) w1 = (Inr created, w2) \<and>
    mergo_Merge x created (Spec_ToNode x (node_Provisioner node)) = Inr merged \<and>
    Nodes_Create x merged w2 = (r, w3) \<and>
    (case r of None \<Rightarrow> True | Some e \<Rightarrow> IsAlreadyExists e)"
  from h have get: "kubeClient_Get_Provisioner x (ObjectKeyFromObject (node_Provisioner node))
                      (world s) = (Inr latest, w1)"
    and lim: "Limits_ExceededBy x (prov_Limits latest) (prov_Status_Resources latest) = None"
    and create: "cloudProvider_Create x (newNodeRequest node) w1 = (Inr created, w2)"
    and merge: "mergo_Merge x created (Spec_ToNode x (node_Provisioner node)) = Inr merged"
    and reg: "Nodes_Create x merged w2 = (r, w3)"
    by simp_all
  note launch_registered [OF get lim create merge reg refl, of c]
  with h show "fst (launch x c node s) = None"
    by (auto split: option.splits)
qed

theorem bind_returns_nil_witness:
  "bind ext_bind_fails ctx0 machineA [podA, podB] s0 =
     (None,
      \<lparr>world = 0,
       trace = [PodsBind ''default'' (newBinding podA machineA),
                Logf Error [] ''Failed to bind %s/%s to %s, %s''
                  [AStr ''default'', AStr ''web-0'', AStr ''ip-10-0-0-1'', AErr (ErrorNew ''conflict'')],
                PodsBind ''default'' (newBinding podB machineA),
                Logf Error [] ''Failed to bind %s/%s to %s, %s''
                  [AStr ''default'', AStr ''web-1'', AStr ''ip-10-0-0-1'', AErr (ErrorNew ''conflict'')],
                Observe ''bind_duration_seconds'' '''']\<rparr>) \<and>
   fst (launch ext_bind_fails ctx0 nodeA s0) = None"
proof -
  have t: "snd (bind ext_bind_fails ctx0 machineA [podA, podB] s0) =
      \<lparr>world = 0,
       trace = [PodsBind ''default'' (newBinding podA machineA),
                Logf Error [] ''Failed to bind %s/%s to %s, %s''
                  [AStr ''default'', AStr ''web-0'', AStr ''ip-10-0-0-1'', AErr (ErrorNew ''conflict'')],
                PodsBind ''default'' (newBinding podB machineA),
                Logf Error [] ''Failed to bind %s/%s to %s, %s''
                  [AStr ''default'', AStr ''web-1'', AStr ''ip-10-0-0-1'', AErr (ErrorNew ''conflict'')],
                Observe ''bind_duration_seconds'' '''']\<rparr>"
    by (simp add: cluster_defs bind_def bind_piece_def ctx_Done_def logf_def emit_def call_def
          Let_def notReadyTolerations_def upt_rec ParallelizeUntil_def pool_steps_def
          pool_start_def pool_step_def)
  have h: "kubeClient_Get_Provisioner ext_bind_fails (ObjectKeyFromObject (node_Provisioner nodeA))
             (world s0) = (Inr provA, 1) \<and>
    Limits_ExceededBy ext_bind_fails (prov_Limits provA) (prov_Status_Resources provA) = None \<and>
    cloudProvider_Create ext_bind_fails (newNodeRequest nodeA) 1 = (Inr machineA, 1) \<and>
    mergo_Merge ext_bind_fails machineA (Spec_ToNode ext_bind_fails (node_Provisioner nodeA)) =
      Inr machineA \<and>
    Nodes_Create ext_bind_fails machineA 1 = (None, 1) \<and>
    (case None :: err option of None \<Rightarrow> True | Some e \<Rightarrow> IsAlreadyExists e)"
    by (simp add: cluster_defs index_ResourceList_def)
  from bind_returns_nil [where x = ext_bind_fails and c = ctx0 and ?k8sNode.0 = machineA
      and pods = "[podA, podB]" and s = s0 and node = nodeA and latest = provA and ?w1.0 = 1
      and created = machineA and ?w2.0 = 1 and merged = machineA and r = None and ?w3.0 = 1] h t
  show ?thesis
    by (metis prod.collapse)
qed

subsection \<open>C10: the container runtime of AL2\<close>

text \<open>
  C10. For a list of instance types that is not empty, \<open>UserData\<close> returns a bootstrapper
  whose container runtime is the one \<open>containerRuntime\<close> computes: \<open>containerd\<close> exactly when
  the first instance type of the list has no NVIDIA GPU, no AMD GPU and no AWS Neuron
  resource, \<open>dockerd\<close> exactly when it has one of them. The other instance types are not
  looked at: the list of the first one alone gives the same result.
\<close>

theorem UserData_runtime_from_first:
  assumes "instanceTypes \<noteq> []"
  shows "\<exists>eks. UserData a kubeletConfig taints labels caBundle instanceTypes = Inr eks \<and>
           containerRuntime a instanceTypes = Inr (eks_ContainerRuntime eks) \<and>
           (eks_ContainerRuntime eks = ''containerd'' \<longleftrightarrow>
              index_ResourceList (it_Resources (hd instanceTypes)) ResourceNVIDIAGPU = 0 \<and>
              index_ResourceList (it_Resources (hd instanceTypes)) ResourceAMDGPU = 0 \<and>
              index_ResourceList (it_Resources (hd instanceTypes)) ResourceAWSNeuron = 0) \<and>
           (eks_ContainerRuntime eks = ''dockerd'' \<longleftrightarrow>
              \<not> (index_ResourceList (it_Resources (hd instanceTypes)) ResourceNVIDIAGPU = 0 \<and>
                 index_ResourceList (it_Resources (hd instanceTypes)) ResourceAMDGPU = 0 \<and>
                 index_ResourceList (it_Resources (hd instanceTypes)) ResourceAWSNeuron = 0)) \<and>
           UserData a kubeletConfig taints labels caBundle [hd instanceTypes] = Inr eks"
proof -
  from assms obtain it0 rest where its: "instanceTypes = it0 # rest"
    by (cases instanceTypes) auto
  show ?thesis
    unfolding its UserData_def containerRuntime_Cons
    by simp
qed

theorem UserData_runtime_from_first_witness:
  "(\<exists>eks. UserData al2 None [] Map.empty None [m5_large, p3_2xlarge] = Inr eks \<and>
          eks_ContainerRuntime eks = ''containerd'') \<and>
   (\<exists>eks. UserData al2 None [] Map.empty None [p3_2xlarge, m5_large] = Inr eks \<and>
          eks_ContainerRuntime eks = ''dockerd'')"
proof -
  have n: "[m5_large, p3_2xlarge] \<noteq> []" and g: "[p3_2xlarge, m5_large] \<noteq> []"
    by simp_all
  from UserData_runtime_from_first [OF n, of al2 None "[]" Map.empty None]
       UserData_runtime_from_first [OF g, of al2 None "[]" Map.empty None]
  show ?thesis
    by (auto simp: m5_large_def p3_2xlarge_def index_ResourceList_def ResourceNVIDIAGPU_def
          ResourceAMDGPU_def ResourceAWSNeuron_def)
qed
end
